theory Spec2Isabelle
  imports Complex_Main
begin

text \<open>
  A model of the metadata-driven validation engine: the metadata records, the connector to
  the relational stores and the eight validators of \<open>DatabaseValidator\<close>, followed by
  the properties of the engine that the specification states.
\<close>

section \<open>Strings and small Python helpers\<close>

text \<open>
  Python strings are modelled as \<^typ>\<open>string\<close> restricted to ASCII: \<open>str.upper\<close> and
  \<open>str.lower\<close> change the 26 ASCII letters and leave every other character alone.
\<close>

definition lower_letters :: string where
  "lower_letters = ''abcdefghijklmnopqrstuvwxyz''"

definition upper_letters :: string where
  "upper_letters = ''ABCDEFGHIJKLMNOPQRSTUVWXYZ''"

definition upper_char :: "char \<Rightarrow> char" where
  "upper_char c = (case map_of (zip lower_letters upper_letters) c of Some u \<Rightarrow> u | None \<Rightarrow> c)"

definition lower_char :: "char \<Rightarrow> char" where
  "lower_char c = (case map_of (zip upper_letters lower_letters) c of Some l \<Rightarrow> l | None \<Rightarrow> c)"

definition upper :: "string \<Rightarrow> string" where
  "upper s = map upper_char s"

definition lower :: "string \<Rightarrow> string" where
  "lower s = map lower_char s"

text \<open>\<open>v in s\<close> on two strings: \<open>v\<close> occurs in \<open>s\<close> as a contiguous slice.\<close>

fun starts_with :: "string \<Rightarrow> string \<Rightarrow> bool" where
  "starts_with s [] = True"
| "starts_with [] (c # v) = False"
| "starts_with (d # s) (c # v) = (d = c \<and> starts_with s v)"

fun contains :: "string \<Rightarrow> string \<Rightarrow> bool" where
  "contains v [] = (v = [])"
| "contains v (c # s) = (starts_with (c # s) v \<or> contains v s)"

text \<open>The single quote character.\<close>

definition quote :: char where
  "quote = CHR 0x27"

text \<open>\<open>sep.join(xs)\<close>.\<close>

fun join :: "string \<Rightarrow> string list \<Rightarrow> string" where
  "join sep [] = []"
| "join sep [x] = x"
| "join sep (x # y # ys) = x @ sep @ join sep (y # ys)"

text \<open>\<open>str(n)\<close> for an integer, in decimal.\<close>

definition digit_char :: "nat \<Rightarrow> char" where
  "digit_char d = ''0123456789'' ! d"

function str_nat :: "nat \<Rightarrow> string" where
  "str_nat n = (if n < 10 then [digit_char n] else str_nat (n div 10) @ [digit_char (n mod 10)])"
  by pat_completeness auto
termination
  by (relation "measure id") auto

definition str_int :: "int \<Rightarrow> string" where
  "str_int i = (if i < 0 then CHR ''-'' # str_nat (nat (- i)) else str_nat (nat i))"

definition str_bool :: "bool \<Rightarrow> string" where
  "str_bool b = (if b then ''True'' else ''False'')"

definition str_opt_bool :: "bool option \<Rightarrow> string" where
  "str_opt_bool b = (case b of None \<Rightarrow> ''None'' | Some v \<Rightarrow> str_bool v)"

text \<open>Truthiness of an \<open>Optional[str]\<close>: \<open>None\<close> and the empty string are false.\<close>

definition truthy :: "string option \<Rightarrow> bool" where
  "truthy s = (case s of None \<Rightarrow> False | Some v \<Rightarrow> v \<noteq> [])"

text \<open>
  An insertion-ordered \<open>dict\<close>: assigning to a key that is present keeps its position
  and replaces its value, a new key goes to the end.
\<close>

fun dict_set :: "('k \<times> 'v) list \<Rightarrow> 'k \<Rightarrow> 'v \<Rightarrow> ('k \<times> 'v) list" where
  "dict_set [] k v = [(k, v)]"
| "dict_set ((k', v') # d) k v =
     (if k' = k then (k', v) # d else (k', v') # dict_set d k v)"

section \<open>Metadata model (utils/excel\_reader.py)\<close>

record feed_metadata =
  modules :: string
  feed :: string
  feed_list :: "string list"
  field_name :: string
  db_name :: string
  db_table :: string
  data_type :: string
  nullable :: string
  request :: string
  default_value :: "string option"
  enumeration :: "string option"
  range_bottom :: "string option"
  range_top :: "string option"
  mandatory :: string
  unique :: string

record enumeration_metadata =
  enumeration_name :: string
  enum_values :: string

section \<open>Data access layer (utils/db\_connector.py)\<close>

text \<open>
  The relational stores are outside the program. They are a parameter of the model: a
  backend with the two operations the connector performs on an engine, each taking the
  state of the outside world and returning the new one. \<open>Inl msg\<close> is a raised exception
  whose \<open>str\<close> is \<open>msg\<close>. A \<open>DataFrame\<close> is its list of rows, a row an association
  list from column alias to value. Of the schema dictionary the keys \<open>columns\<close> and
  \<open>primary_keys\<close> are kept; \<open>foreign_keys\<close> and \<open>indexes\<close> are never read by the
  engine. Of a column the name, the text of its type and the nullable flag are kept.
\<close>

datatype engine = Server1 | Server2

record column_info =
  col_name :: string
  col_type :: string
  col_nullable :: bool

record table_schema =
  columns :: "column_info list"
  primary_keys :: "string list"

type_synonym dataframe = "(string \<times> int) list list"

record 'w backend =
  inspect_table :: "engine \<Rightarrow> string \<Rightarrow> 'w \<Rightarrow> (string + table_schema) \<times> 'w"
  read_sql_query :: "engine \<Rightarrow> string \<Rightarrow> 'w \<Rightarrow> (string + dataframe) \<times> 'w"

definition get_engine :: "string \<Rightarrow> engine" where
  "get_engine dbn =
     (if contains ''server1'' (lower dbn) then Server1
      else if contains ''server2'' (lower dbn) then Server2
      else Server1)"

definition execute_query :: "'w backend \<Rightarrow> string \<Rightarrow> string \<Rightarrow> 'w \<Rightarrow> (string + dataframe) \<times> 'w" where
  "execute_query be dbn query w = read_sql_query be (get_engine dbn) query w"

definition get_table_schema :: "'w backend \<Rightarrow> string \<Rightarrow> string \<Rightarrow> 'w \<Rightarrow> (string + table_schema) \<times> 'w" where
  "get_table_schema be dbn tbl w = inspect_table be (get_engine dbn) tbl w"

text \<open>\<open>result.iloc[0][alias]\<close>: raises on an empty frame and on a missing column.\<close>

definition iloc0 :: "dataframe \<Rightarrow> string \<Rightarrow> string + int" where
  "iloc0 df alias =
     (case df of
        [] \<Rightarrow> Inl ''single positional indexer is out-of-bounds''
      | row # _ \<Rightarrow> (case map_of row alias of
                      None \<Rightarrow> Inl (quote # alias @ [quote])
                    | Some v \<Rightarrow> Inr v))"

text \<open>One query followed by the read of its single aggregate.\<close>

definition query_scalar :: "'w backend \<Rightarrow> string \<Rightarrow> string \<Rightarrow> string \<Rightarrow> 'w \<Rightarrow> (string + int) \<times> 'w" where
  "query_scalar be dbn query alias w =
     (case execute_query be dbn query w of
        (Inl e, w1) \<Rightarrow> (Inl e, w1)
      | (Inr df, w1) \<Rightarrow> (iloc0 df alias, w1))"

definition get_row_count :: "'w backend \<Rightarrow> string \<Rightarrow> string \<Rightarrow> string option \<Rightarrow> 'w \<Rightarrow> (string + int) \<times> 'w" where
  "get_row_count be dbn tbl where_clause w =
     (let query = ''SELECT COUNT(*) as row_count FROM '' @ tbl;
          query = (case where_clause of
                     None \<Rightarrow> query
                   | Some clause \<Rightarrow> if clause \<noteq> [] then query @ '' WHERE '' @ clause else query)
      in query_scalar be dbn query ''row_count'' w)"

subsection \<open>Type compatibility\<close>

definition type_mappings :: "(string \<times> string list) list" where
  "type_mappings =
     [(''VARCHAR'', [''VARCHAR'', ''NVARCHAR'', ''TEXT'', ''STRING'']),
      (''INTEGER'', [''INTEGER'', ''INT'', ''BIGINT'', ''SMALLINT'']),
      (''DECIMAL'', [''DECIMAL'', ''NUMERIC'', ''FLOAT'', ''REAL'']),
      (''DATETIME'', [''DATETIME'', ''TIMESTAMP'', ''DATE'', ''TIME'']),
      (''BOOLEAN'', [''BOOLEAN'', ''BIT''])]"

fun compare_loop :: "(string \<times> string list) list \<Rightarrow> string \<Rightarrow> string \<Rightarrow> bool" where
  "compare_loop [] actual_type expected_type = (actual_type = expected_type)"
| "compare_loop ((standard_type, variants) # rest) actual_type expected_type =
     (if list_ex (\<lambda>variant. contains variant actual_type) variants
         \<and> list_ex (\<lambda>variant. contains variant expected_type) variants
      then True
      else compare_loop rest actual_type expected_type)"

definition compare_data_types :: "string \<Rightarrow> string \<Rightarrow> bool" where
  "compare_data_types actual_type expected_type =
     compare_loop type_mappings actual_type expected_type"

text \<open>
  The buckets as the specification names them. A type string is classified into a bucket
  when one of the bucket's variant names occurs in it.
\<close>

datatype bucket = TextLike | IntegerLike | DecimalLike | DatetimeLike | BooleanLike

fun bucket_variants :: "bucket \<Rightarrow> string list" where
  "bucket_variants TextLike = [''VARCHAR'', ''NVARCHAR'', ''TEXT'', ''STRING'']"
| "bucket_variants IntegerLike = [''INTEGER'', ''INT'', ''BIGINT'', ''SMALLINT'']"
| "bucket_variants DecimalLike = [''DECIMAL'', ''NUMERIC'', ''FLOAT'', ''REAL'']"
| "bucket_variants DatetimeLike = [''DATETIME'', ''TIMESTAMP'', ''DATE'', ''TIME'']"
| "bucket_variants BooleanLike = [''BOOLEAN'', ''BIT'']"

definition classifies :: "string \<Rightarrow> bucket \<Rightarrow> bool" where
  "classifies t b = list_ex (\<lambda>variant. contains variant t) (bucket_variants b)"

definition type_compatible :: "string \<Rightarrow> string \<Rightarrow> bool" where
  "type_compatible actual_type expected_type =
     (list_ex (\<lambda>b. classifies actual_type b \<and> classifies expected_type b)
        [TextLike, IntegerLike, DecimalLike, DatetimeLike, BooleanLike]
      \<or> actual_type = expected_type)"

subsection \<open>Quantitative checks of the connector\<close>

text \<open>
  Each method of the connector wraps its body in a handler that logs and re-raises, so an
  exception of the backend leaves the method unchanged. The connector's own
  \<open>validate_data_types\<close> is named \<open>connector_validate_data_types\<close> here, the validator's
  method keeps the plain name.
\<close>

definition type_check_column :: "(string \<rightharpoonup> string) \<Rightarrow> (string \<times> bool) list \<Rightarrow> column_info \<Rightarrow> (string \<times> bool) list" where
  "type_check_column expected_schema validation_results column_info =
     (let column_name = col_name column_info;
          actual_type = upper (col_type column_info)
      in case expected_schema column_name of
           Some t \<Rightarrow> dict_set validation_results column_name (compare_data_types actual_type (upper t))
         | None \<Rightarrow> dict_set validation_results column_name False)"

definition connector_validate_data_types ::
  "'w backend \<Rightarrow> string \<Rightarrow> string \<Rightarrow> (string \<rightharpoonup> string) \<Rightarrow> 'w \<Rightarrow> (string + (string \<times> bool) list) \<times> 'w" where
  "connector_validate_data_types be dbn tbl expected_schema w =
     (case get_table_schema be dbn tbl w of
        (Inl e, w1) \<Rightarrow> (Inl e, w1)
      | (Inr actual_schema, w1) \<Rightarrow>
          (Inr (foldl (type_check_column expected_schema) [] (columns actual_schema)), w1))"

definition check_nullable_constraints ::
  "'w backend \<Rightarrow> string \<Rightarrow> string \<Rightarrow> string \<Rightarrow> 'w \<Rightarrow> (string + bool option \<times> int) \<times> 'w" where
  "check_nullable_constraints be dbn tbl column_name w =
     (case get_table_schema be dbn tbl w of
        (Inl e, w1) \<Rightarrow> (Inl e, w1)
      | (Inr schema, w1) \<Rightarrow>
          (let column_nullable =
                 (case find (\<lambda>col. col_name col = column_name) (columns schema) of
                    None \<Rightarrow> None
                  | Some col \<Rightarrow> Some (col_nullable col));
               query = ''SELECT COUNT(*) as null_count FROM '' @ tbl @ '' WHERE ''
                         @ column_name @ '' IS NULL''
           in case query_scalar be dbn query ''null_count'' w1 of
                (Inl e, w2) \<Rightarrow> (Inl e, w2)
              | (Inr null_count, w2) \<Rightarrow> (Inr (column_nullable, null_count), w2)))"

definition check_unique_constraints ::
  "'w backend \<Rightarrow> string \<Rightarrow> string \<Rightarrow> string \<Rightarrow> 'w \<Rightarrow> (string + int \<times> int) \<times> 'w" where
  "check_unique_constraints be dbn tbl column_name w =
     (case query_scalar be dbn (''SELECT COUNT(*) as total_count FROM '' @ tbl) ''total_count'' w of
        (Inl e, w1) \<Rightarrow> (Inl e, w1)
      | (Inr total_count, w1) \<Rightarrow>
          (case query_scalar be dbn
                  (''SELECT COUNT(DISTINCT '' @ column_name @ '') as distinct_count FROM '' @ tbl)
                  ''distinct_count'' w1 of
             (Inl e, w2) \<Rightarrow> (Inl e, w2)
           | (Inr distinct_count, w2) \<Rightarrow> (Inr (total_count, distinct_count), w2)))"

text \<open>The dictionary of range counts has a key only for a bound that is present.\<close>

record range_counts =
  below_range :: "int option"
  above_range :: "int option"

definition opt_str :: "string option \<Rightarrow> string" where
  "opt_str s = (case s of None \<Rightarrow> ''None'' | Some v \<Rightarrow> v)"

definition range_query ::
  "'w backend \<Rightarrow> string \<Rightarrow> string \<Rightarrow> string option \<Rightarrow> 'w \<Rightarrow> (string + int option) \<times> 'w" where
  "range_query be dbn query alias w =
     (case alias of
        None \<Rightarrow> (Inr None, w)
      | Some a \<Rightarrow> (case query_scalar be dbn query a w of
                    (Inl e, w1) \<Rightarrow> (Inl e, w1)
                  | (Inr n, w1) \<Rightarrow> (Inr (Some n), w1)))"

definition check_range_constraints ::
  "'w backend \<Rightarrow> string \<Rightarrow> string \<Rightarrow> string \<Rightarrow> string option \<Rightarrow> string option \<Rightarrow> 'w
     \<Rightarrow> (string + range_counts) \<times> 'w" where
  "check_range_constraints be dbn tbl column_name rb rt w =
     (case range_query be dbn
             (''SELECT COUNT(*) as below_range FROM '' @ tbl @ '' WHERE '' @ column_name
                @ '' < '' @ opt_str rb)
             (if truthy rb then Some ''below_range'' else None) w of
        (Inl e, w1) \<Rightarrow> (Inl e, w1)
      | (Inr below_n, w1) \<Rightarrow>
          (case range_query be dbn
                  (''SELECT COUNT(*) as above_range FROM '' @ tbl @ '' WHERE '' @ column_name
                     @ '' > '' @ opt_str rt)
                  (if truthy rt then Some ''above_range'' else None) w1 of
             (Inl e, w2) \<Rightarrow> (Inl e, w2)
           | (Inr above_n, w2) \<Rightarrow> (Inr \<lparr>below_range = below_n, above_range = above_n\<rparr>, w2)))"

definition check_enumeration_constraints ::
  "'w backend \<Rightarrow> string \<Rightarrow> string \<Rightarrow> string \<Rightarrow> string list \<Rightarrow> 'w \<Rightarrow> (string + int) \<times> 'w" where
  "check_enumeration_constraints be dbn tbl column_name allowed_values w =
     (let values_str = join (quote # '', '' @ [quote]) allowed_values;
          query = ''SELECT COUNT(*) as invalid_count FROM '' @ tbl @ '' WHERE '' @ column_name
                    @ '' NOT IN ('' @ [quote] @ values_str @ [quote] @ '')''
      in query_scalar be dbn query ''invalid_count'' w)"

section \<open>Validation engine (validations/db\_validations.py)\<close>

datatype status = PASS | FAIL | ERROR

text \<open>
  The keys every result dictionary has. The keys \<open>db_name\<close>, \<open>range_bottom\<close> and
  \<open>range_top\<close> of a result are named \<open>res_db_name\<close>, \<open>res_range_bottom\<close> and
  \<open>res_range_top\<close>, since the metadata record has fields of the same names.
\<close>

record vresult =
  validation_type :: string
  res_db_name :: string
  table_name :: string
  feed_name :: string
  validation_status :: status
  error_message :: "string option"

definition set_error :: "string \<Rightarrow> string \<Rightarrow> 'a vresult_scheme \<Rightarrow> 'a vresult_scheme" where
  "set_error prefix e result =
     result\<lparr>validation_status := ERROR, error_message := Some (prefix @ e)\<rparr>"

definition set_fail :: "string \<Rightarrow> 'a vresult_scheme \<Rightarrow> 'a vresult_scheme" where
  "set_fail msg result = result\<lparr>validation_status := FAIL, error_message := Some msg\<rparr>"

text \<open>
  \<open>if selected_feeds: metadata = [meta for meta in metadata if meta.feed in selected_feeds]\<close>.
  \<open>None\<close> and the empty list select everything.
\<close>

definition filter_feeds :: "string list option \<Rightarrow> feed_metadata list \<Rightarrow> feed_metadata list" where
  "filter_feeds selected_feeds metadata =
     (case selected_feeds of
        None \<Rightarrow> metadata
      | Some [] \<Rightarrow> metadata
      | Some (f # fs) \<Rightarrow> filter (\<lambda>meta. feed meta \<in> set (f # fs)) metadata)"

text \<open>Grouping by the key \<open>f"{meta.db_name}.{meta.db_table}"\<close>, in order of first occurrence.\<close>

definition table_key :: "feed_metadata \<Rightarrow> string" where
  "table_key meta = db_name meta @ ''.'' @ db_table meta"

fun group_append :: "(string \<times> 'a list) list \<Rightarrow> string \<Rightarrow> 'a \<Rightarrow> (string \<times> 'a list) list" where
  "group_append [] key x = [(key, [x])]"
| "group_append ((k, xs) # groups) key x =
     (if k = key then (k, xs @ [x]) # groups else (k, xs) # group_append groups key x)"

definition table_groups :: "feed_metadata list \<Rightarrow> (string \<times> feed_metadata list) list" where
  "table_groups metadata = foldl (\<lambda>groups meta. group_append groups (table_key meta) meta) [] metadata"

text \<open>
  \<open>db_name, table_name = table_key.split('.', 1)\<close> raises when the key has no dot, and
  \<open>table_metadata[0]\<close> raises on an empty group. Both are outside the per-group handler,
  so they reach the handler around the whole validator. A group is the pair of its key and
  its list of records.
\<close>

definition split_key :: "string \<Rightarrow> string + string \<times> string" where
  "split_key key =
     (if CHR ''.'' \<in> set key
      then Inr (takeWhile (\<lambda>c. c \<noteq> CHR ''.'') key, tl (dropWhile (\<lambda>c. c \<noteq> CHR ''.'') key))
      else Inl ''not enough values to unpack (expected 2, got 1)'')"

definition group_header :: "string \<times> feed_metadata list \<Rightarrow> string + string \<times> string \<times> feed_metadata" where
  "group_header g =
     (case split_key (fst g) of
        Inl e \<Rightarrow> Inl e
      | Inr (dbn, tbl) \<Rightarrow>
          (case snd g of
             [] \<Rightarrow> Inl ''list index out of range''
           | m0 # _ \<Rightarrow> Inr (dbn, tbl, m0)))"

text \<open>
  The loop over the groups. \<open>Inl e\<close> from a body is an exception that no per-group handler
  caught: the loop stops and the results so far are lost.
\<close>

fun for_each_group :: "('g \<Rightarrow> 'w \<Rightarrow> (string + 'r) \<times> 'w) \<Rightarrow> 'g list \<Rightarrow> 'w \<Rightarrow> (string + 'r list) \<times> 'w" where
  "for_each_group body [] w = (Inr [], w)"
| "for_each_group body (g # gs) w =
     (case body g w of
        (Inl e, w1) \<Rightarrow> (Inl e, w1)
      | (Inr r, w1) \<Rightarrow>
          (case for_each_group body gs w1 of
             (Inl e, w2) \<Rightarrow> (Inl e, w2)
           | (Inr rs, w2) \<Rightarrow> (Inr (r # rs), w2)))"

text \<open>
  One iteration of the loop over the groups: the two statements that can raise before the
  per-group handler is entered, then the rest of the iteration, which is written as a
  function of its own for each validator and always yields a result record.
\<close>

definition in_group ::
  "(string \<Rightarrow> string \<Rightarrow> feed_metadata \<Rightarrow> string \<times> feed_metadata list \<Rightarrow> 'w \<Rightarrow> 'r \<times> 'w)
     \<Rightarrow> string \<times> feed_metadata list \<Rightarrow> 'w \<Rightarrow> (string + 'r) \<times> 'w" where
  "in_group table_body g w =
     (case group_header g of
        Inl e \<Rightarrow> (Inl e, w)
      | Inr (dbn, tbl, m0) \<Rightarrow> (case table_body dbn tbl m0 g w of (r, w1) \<Rightarrow> (Inr r, w1)))"

text \<open>
  The handler around a whole validator returns the one-element list
  \<open>[{'validation_type': t, 'validation_status': 'ERROR', 'error_message': prefix + str(e)}]\<close>;
  it is the value \<open>Inl (prefix @ e)\<close> here, and \<open>Inr results\<close> is the normal return.
\<close>

definition outer_handler :: "string \<Rightarrow> (string + 'r list) \<times> 'w \<Rightarrow> (string + 'r list) \<times> 'w" where
  "outer_handler prefix out =
     (case out of
        (Inl e, w) \<Rightarrow> (Inl (prefix @ e), w)
      | (Inr rs, w) \<Rightarrow> (Inr rs, w))"

text \<open>
  The loop of the per-column validators. Their bodies catch every exception they can
  raise, and nothing outside the body can raise on well-typed metadata.
\<close>

fun for_each_column :: "('m \<Rightarrow> 'w \<Rightarrow> 'r \<times> 'w) \<Rightarrow> 'm list \<Rightarrow> 'w \<Rightarrow> 'r list \<times> 'w" where
  "for_each_column body [] w = ([], w)"
| "for_each_column body (m # ms) w =
     (case body m w of
        (r, w1) \<Rightarrow> (case for_each_column body ms w1 of (rs, w2) \<Rightarrow> (r # rs, w2)))"

subsection \<open>Data types\<close>

text \<open>
  \<open>FeedMetadata\<close> has no attribute \<open>skiprow\<close> or \<open>where_clause\<close>, so both \<open>hasattr\<close> tests
  are false: the filter is the feed filter and the where clause stays \<open>None\<close>.
\<close>

record column_validation =
  cv_column_name :: string
  expected_type :: string
  validation_passed :: bool
  cv_error_message :: "string option"

record data_type_result = vresult +
  column_validations :: "column_validation list"

definition expected_schema_of :: "feed_metadata list \<Rightarrow> (string \<rightharpoonup> string)" where
  "expected_schema_of table_metadata =
     foldl (\<lambda>expected_schema meta. expected_schema(field_name meta \<mapsto> data_type meta))
       Map.empty table_metadata"

definition process_column :: "feed_metadata list \<Rightarrow> data_type_result \<Rightarrow> string \<times> bool \<Rightarrow> data_type_result" where
  "process_column table_metadata result item =
     (let column_name = fst item;
          is_valid = snd item;
          column_meta = find (\<lambda>m. field_name m = column_name) table_metadata;
          column_result =
            \<lparr>cv_column_name = column_name,
             expected_type = (case column_meta of Some m \<Rightarrow> data_type m | None \<Rightarrow> ''Unknown''),
             validation_passed = is_valid,
             cv_error_message =
               (if is_valid then None else Some (''Data type mismatch for column '' @ column_name))\<rparr>;
          result = result\<lparr>column_validations := column_validations result @ [column_result]\<rparr>
      in if \<not> is_valid then result\<lparr>validation_status := FAIL\<rparr> else result)"

definition data_type_table ::
  "'w backend \<Rightarrow> string \<Rightarrow> string \<Rightarrow> feed_metadata \<Rightarrow> string \<times> feed_metadata list \<Rightarrow> 'w
     \<Rightarrow> data_type_result \<times> 'w" where
  "data_type_table be dbn tbl m0 g w =
     (let result =
            \<lparr>validation_type = ''data_type'', res_db_name = dbn, table_name = tbl,
             feed_name = feed m0, validation_status = PASS, error_message = None,
             column_validations = []\<rparr>
      in case get_table_schema be dbn tbl w of
           (Inl e, w1) \<Rightarrow> (set_error ''Error validating data types: '' e result, w1)
         | (Inr actual_schema, w1) \<Rightarrow>
             (case connector_validate_data_types be dbn tbl (expected_schema_of (snd g)) w1 of
                (Inl e, w2) \<Rightarrow> (set_error ''Error validating data types: '' e result, w2)
              | (Inr type_validation_results, w2) \<Rightarrow>
                  (foldl (process_column (snd g)) result type_validation_results, w2)))"

definition validate_data_types ::
  "'w backend \<Rightarrow> feed_metadata list \<Rightarrow> string list option \<Rightarrow> 'w \<Rightarrow> (string + data_type_result list) \<times> 'w" where
  "validate_data_types be metadata selected_feeds w =
     outer_handler ''Error in data type validation: ''
       (for_each_group (in_group (data_type_table be)) (table_groups (filter_feeds selected_feeds metadata)) w)"

subsection \<open>Nullable and mandatory columns\<close>

record column_vresult = vresult +
  column_name :: string

record nullable_result = column_vresult +
  expected_nullable :: string
  expected_mandatory :: string
  actual_nullable :: "bool option"
  null_count :: int

definition nullable_column :: "'w backend \<Rightarrow> feed_metadata \<Rightarrow> 'w \<Rightarrow> nullable_result \<times> 'w" where
  "nullable_column be meta w =
     (let result =
            \<lparr>validation_type = ''nullable_constraint'', res_db_name = db_name meta,
             table_name = db_table meta, feed_name = feed meta, validation_status = PASS,
             error_message = None, column_name = field_name meta,
             expected_nullable = nullable meta, expected_mandatory = mandatory meta,
             actual_nullable = None, null_count = 0\<rparr>
      in case check_nullable_constraints be (db_name meta) (db_table meta) (field_name meta) w of
           (Inl e, w1) \<Rightarrow> (set_error ''Error validating nullable constraints: '' e result, w1)
         | (Inr (actual, nulls), w1) \<Rightarrow>
             (let result = result\<lparr>actual_nullable := actual, null_count := nulls\<rparr>;
                  mandatory_violated = (upper (mandatory meta) = ''Y'' \<and> nulls > 0);
                  error_messages =
                    (if mandatory_violated
                     then [''Mandatory field has '' @ str_int nulls @ '' null values''] else []);
                  expected_nullable_bool = (upper (nullable meta) = ''Y'');
                  mismatch = (actual \<noteq> Some expected_nullable_bool);
                  error_messages =
                    (if mismatch
                     then error_messages @ [''Nullable setting mismatch: expected ''
                            @ str_bool expected_nullable_bool @ '', got '' @ str_opt_bool actual]
                     else error_messages);
                  validation_passed = (\<not> mandatory_violated \<and> \<not> mismatch)
              in (if \<not> validation_passed then set_fail (join ''; '' error_messages) result
                  else result, w1)))"

definition validate_nullable_constraints ::
  "'w backend \<Rightarrow> feed_metadata list \<Rightarrow> string list option \<Rightarrow> 'w \<Rightarrow> nullable_result list \<times> 'w" where
  "validate_nullable_constraints be metadata selected_feeds w =
     for_each_column (nullable_column be) (filter_feeds selected_feeds metadata) w"

subsection \<open>Unique columns\<close>

record unique_result = column_vresult +
  expected_unique :: string
  total_count :: int
  distinct_count :: int
  duplicate_count :: int

definition unique_column :: "'w backend \<Rightarrow> feed_metadata \<Rightarrow> 'w \<Rightarrow> unique_result \<times> 'w" where
  "unique_column be meta w =
     (let result =
            \<lparr>validation_type = ''unique_constraint'', res_db_name = db_name meta,
             table_name = db_table meta, feed_name = feed meta, validation_status = PASS,
             error_message = None, column_name = field_name meta,
             expected_unique = unique meta, total_count = 0, distinct_count = 0,
             duplicate_count = 0\<rparr>
      in case check_unique_constraints be (db_name meta) (db_table meta) (field_name meta) w of
           (Inl e, w1) \<Rightarrow> (set_error ''Error validating unique constraints: '' e result, w1)
         | (Inr (total_n, distinct_n), w1) \<Rightarrow>
             (let result = result\<lparr>total_count := total_n, distinct_count := distinct_n,
                                  duplicate_count := total_n - distinct_n\<rparr>
              in (if total_n \<noteq> distinct_n
                  then set_fail (''Column should be unique but has ''
                                   @ str_int (duplicate_count result) @ '' duplicates'') result
                  else result, w1)))"

definition validate_unique_constraints ::
  "'w backend \<Rightarrow> feed_metadata list \<Rightarrow> string list option \<Rightarrow> 'w \<Rightarrow> unique_result list \<times> 'w" where
  "validate_unique_constraints be metadata selected_feeds w =
     (let unique_metadata =
            filter (\<lambda>meta. upper (unique meta) = ''Y'') (filter_feeds selected_feeds metadata)
      in for_each_column (unique_column be) unique_metadata w)"

subsection \<open>Ranges\<close>

record range_result = column_vresult +
  res_range_bottom :: "string option"
  res_range_top :: "string option"
  below_range_count :: int
  above_range_count :: int

definition get_or_zero :: "int option \<Rightarrow> int" where
  "get_or_zero v = (case v of None \<Rightarrow> 0 | Some n \<Rightarrow> n)"

definition range_column :: "'w backend \<Rightarrow> feed_metadata \<Rightarrow> 'w \<Rightarrow> range_result \<times> 'w" where
  "range_column be meta w =
     (let result =
            \<lparr>validation_type = ''range_constraint'', res_db_name = db_name meta,
             table_name = db_table meta, feed_name = feed meta, validation_status = PASS,
             error_message = None, column_name = field_name meta,
             res_range_bottom = range_bottom meta, res_range_top = range_top meta,
             below_range_count = 0, above_range_count = 0\<rparr>
      in case check_range_constraints be (db_name meta) (db_table meta) (field_name meta)
                (range_bottom meta) (range_top meta) w of
           (Inl e, w1) \<Rightarrow> (set_error ''Error validating range constraints: '' e result, w1)
         | (Inr range_results, w1) \<Rightarrow>
             (let result = result\<lparr>below_range_count := get_or_zero (below_range range_results),
                                  above_range_count := get_or_zero (above_range range_results)\<rparr>;
                  total_violations = below_range_count result + above_range_count result
              in (if total_violations > 0
                  then set_fail (''Range violations: '' @ str_int (below_range_count result)
                                   @ '' below range, '' @ str_int (above_range_count result)
                                   @ '' above range'') result
                  else result, w1)))"

definition validate_range_constraints ::
  "'w backend \<Rightarrow> feed_metadata list \<Rightarrow> string list option \<Rightarrow> 'w \<Rightarrow> range_result list \<times> 'w" where
  "validate_range_constraints be metadata selected_feeds w =
     (let range_metadata =
            filter (\<lambda>meta. truthy (range_bottom meta) \<or> truthy (range_top meta))
              (filter_feeds selected_feeds metadata)
      in for_each_column (range_column be) range_metadata w)"

subsection \<open>Enumerations\<close>

record enumeration_result = column_vresult +
  res_enumeration_name :: "string option"
  allowed_values :: "string list"
  invalid_count :: int

definition enum_lookup_of :: "enumeration_metadata list \<Rightarrow> (string \<times> string list) list" where
  "enum_lookup_of enumeration_metadata =
     foldl (\<lambda>enum_lookup enum_meta.
              group_append enum_lookup (enumeration_name enum_meta) (enum_values enum_meta))
       [] enumeration_metadata"

text \<open>\<open>enum_lookup.get(meta.enumeration, [])\<close>; the key \<open>None\<close> is never in the lookup.\<close>

definition enum_lookup_get :: "(string \<times> string list) list \<Rightarrow> string option \<Rightarrow> string list" where
  "enum_lookup_get enum_lookup name =
     (case name of
        None \<Rightarrow> []
      | Some n \<Rightarrow> (case map_of enum_lookup n of None \<Rightarrow> [] | Some vs \<Rightarrow> vs))"

definition enumeration_column ::
  "'w backend \<Rightarrow> (string \<times> string list) list \<Rightarrow> feed_metadata \<Rightarrow> 'w \<Rightarrow> enumeration_result \<times> 'w" where
  "enumeration_column be enum_lookup meta w =
     (let result =
            \<lparr>validation_type = ''enumeration_constraint'', res_db_name = db_name meta,
             table_name = db_table meta, feed_name = feed meta, validation_status = PASS,
             error_message = None, column_name = field_name meta,
             res_enumeration_name = enumeration meta, allowed_values = [], invalid_count = 0\<rparr>;
          allowed = enum_lookup_get enum_lookup (enumeration meta);
          result = result\<lparr>allowed_values := allowed\<rparr>
      in if allowed = []
         then (result\<lparr>validation_status := ERROR,
                       error_message := Some (''Enumeration '' @ opt_str (enumeration meta)
                                                @ '' not found in metadata'')\<rparr>, w)
         else (case check_enumeration_constraints be (db_name meta) (db_table meta)
                      (field_name meta) allowed w of
                 (Inl e, w1) \<Rightarrow> (set_error ''Error validating enumeration constraints: '' e result, w1)
               | (Inr invalid, w1) \<Rightarrow>
                   (let result = result\<lparr>invalid_count := invalid\<rparr>
                    in (if invalid > 0
                        then set_fail (''Found '' @ str_int invalid
                                         @ '' values not in allowed enumeration'') result
                        else result, w1))))"

definition validate_enumeration_constraints ::
  "'w backend \<Rightarrow> feed_metadata list \<Rightarrow> enumeration_metadata list \<Rightarrow> string list option \<Rightarrow> 'w
     \<Rightarrow> enumeration_result list \<times> 'w" where
  "validate_enumeration_constraints be metadata enumeration_metadata selected_feeds w =
     (let enum_metadata =
            filter (\<lambda>meta. truthy (enumeration meta)) (filter_feeds selected_feeds metadata);
          enum_lookup = enum_lookup_of enumeration_metadata
      in for_each_column (enumeration_column be enum_lookup) enum_metadata w)"

subsection \<open>Insert and append\<close>

record insert_append_result = vresult +
  request_type :: string
  current_row_count :: int
  expected_behavior :: string

definition insert_append_table ::
  "'w backend \<Rightarrow> string \<Rightarrow> string \<Rightarrow> feed_metadata \<Rightarrow> string \<times> feed_metadata list \<Rightarrow> 'w
     \<Rightarrow> insert_append_result \<times> 'w" where
  "insert_append_table be dbn tbl m0 g w =
     (let result =
            \<lparr>validation_type = ''insert_append_logic'', res_db_name = dbn, table_name = tbl,
             feed_name = feed m0, validation_status = PASS, error_message = None,
             request_type = request m0, current_row_count = 0, expected_behavior = []\<rparr>
      in case get_row_count be dbn tbl None w of
           (Inl e, w1) \<Rightarrow> (set_error ''Error validating insert/append logic: '' e result, w1)
         | (Inr current_count, w1) \<Rightarrow>
             (let result = result\<lparr>current_row_count := current_count\<rparr>
              in (if upper (request m0) = ''INSERT''
                  then result\<lparr>expected_behavior :=
                         ''Fresh data load - table should be truncated before insert''\<rparr>
                  else if upper (request m0) = ''APPEND''
                  then result\<lparr>expected_behavior := ''Data should be appended to existing data''\<rparr>
                  else result\<lparr>validation_status := ERROR,
                         error_message := Some (''Unknown request type: '' @ request m0)\<rparr>,
                  w1)))"

definition validate_insert_append_logic ::
  "'w backend \<Rightarrow> feed_metadata list \<Rightarrow> string list option \<Rightarrow> 'w
     \<Rightarrow> (string + insert_append_result list) \<times> 'w" where
  "validate_insert_append_logic be metadata selected_feeds w =
     outer_handler ''Error in insert/append logic validation: ''
       (for_each_group (in_group (insert_append_table be)) (table_groups (filter_feeds selected_feeds metadata)) w)"

subsection \<open>Row counts\<close>

record count_result = vresult +
  actual_count :: int
  expected_count :: "int option"

text \<open>
  \<open>expected_counts\<close> is an optional dictionary from table key to count; \<open>None\<close> and the
  empty dictionary are false.
\<close>

definition expected_for :: "(string \<times> int) list option \<Rightarrow> string \<Rightarrow> int option" where
  "expected_for expected_counts key =
     (case expected_counts of
        None \<Rightarrow> None
      | Some d \<Rightarrow> map_of d key)"

definition count_table ::
  "'w backend \<Rightarrow> (string \<times> int) list option \<Rightarrow> string \<Rightarrow> string \<Rightarrow> feed_metadata
     \<Rightarrow> string \<times> feed_metadata list \<Rightarrow> 'w \<Rightarrow> count_result \<times> 'w" where
  "count_table be expected_counts dbn tbl m0 g w =
     (let result =
            \<lparr>validation_type = ''count_check'', res_db_name = dbn, table_name = tbl,
             feed_name = feed m0, validation_status = PASS, error_message = None,
             actual_count = 0, expected_count = None\<rparr>
      in case get_row_count be dbn tbl None w of
           (Inl e, w1) \<Rightarrow> (set_error ''Error validating count checks: '' e result, w1)
         | (Inr actual, w1) \<Rightarrow>
             (let result = result\<lparr>actual_count := actual\<rparr>;
                  result =
                    (case expected_for expected_counts (fst g) of
                       None \<Rightarrow> result
                     | Some expected \<Rightarrow>
                         (let result = result\<lparr>expected_count := Some expected\<rparr>
                          in if actual \<noteq> expected
                             then set_fail (''Count mismatch: expected '' @ str_int expected
                                              @ '', got '' @ str_int actual) result
                             else result))
              in (if actual = 0 then set_fail ''Table is empty'' result else result, w1)))"

definition validate_count_checks ::
  "'w backend \<Rightarrow> feed_metadata list \<Rightarrow> (string \<times> int) list option \<Rightarrow> string list option \<Rightarrow> 'w
     \<Rightarrow> (string + count_result list) \<times> 'w" where
  "validate_count_checks be metadata expected_counts selected_feeds w =
     outer_handler ''Error in count checks validation: ''
       (for_each_group (in_group (count_table be expected_counts))
          (table_groups (filter_feeds selected_feeds metadata)) w)"

subsection \<open>Completeness\<close>

text \<open>
  Percentages are Python floats in the source. They are exact rationals here: the rounding
  error of binary floating point is not modelled, and \<open>round(x, 2)\<close> is rounding of the
  exact value to the nearest hundredth, ties to the even neighbour. The text that the
  source prints for a float inside a message is the parameter \<open>str_float\<close>.
\<close>

definition py_truediv :: "int \<Rightarrow> int \<Rightarrow> string + rat" where
  "py_truediv a b = (if b = 0 then Inl ''division by zero'' else Inr (of_int a / of_int b))"

definition py_mean :: "rat list \<Rightarrow> string + rat" where
  "py_mean scores =
     (if length scores = 0 then Inl ''division by zero''
      else Inr (sum_list scores / of_nat (length scores)))"

definition py_round2 :: "rat \<Rightarrow> rat" where
  "py_round2 x =
     (let y = x * 100; f = \<lfloor>y\<rfloor>; d = y - of_int f
      in (if d < 1 / 2 then of_int f
          else if 1 / 2 < d then of_int (f + 1)
          else if even f then of_int f
          else of_int (f + 1)) / 100)"

record column_completeness_entry =
  cc_column_name :: string
  cc_total_rows :: int
  cc_null_count :: int
  completeness_percentage :: rat
  is_mandatory :: bool

record completeness_result = vresult +
  total_rows :: int
  column_completeness :: "column_completeness_entry list"
  overall_completeness_score :: rat

text \<open>
  The loop over the columns of one table. It appends to the \<open>column_completeness\<close> list of
  the result and to \<open>completeness_scores\<close>; when a step raises, the entries appended so
  far stay in the result.
\<close>

fun completeness_columns ::
  "'w backend \<Rightarrow> string \<Rightarrow> string \<Rightarrow> int \<Rightarrow> feed_metadata list
     \<Rightarrow> column_completeness_entry list \<Rightarrow> rat list \<Rightarrow> 'w
     \<Rightarrow> (column_completeness_entry list \<times> (string + rat list)) \<times> 'w" where
  "completeness_columns be dbn tbl rows [] entries completeness_scores w =
     ((entries, Inr completeness_scores), w)"
| "completeness_columns be dbn tbl rows (meta # rest) entries completeness_scores w =
     (case check_nullable_constraints be dbn tbl (field_name meta) w of
        (Inl e, w1) \<Rightarrow> ((entries, Inl e), w1)
      | (Inr (_, nulls), w1) \<Rightarrow>
          (case py_truediv (rows - nulls) rows of
             Inl e \<Rightarrow> ((entries, Inl e), w1)
           | Inr q \<Rightarrow>
               (let percentage = q * 100;
                    column_result =
                      \<lparr>cc_column_name = field_name meta, cc_total_rows = rows,
                       cc_null_count = nulls, completeness_percentage = py_round2 percentage,
                       is_mandatory = (upper (mandatory meta) = ''Y'')\<rparr>
                in completeness_columns be dbn tbl rows rest (entries @ [column_result])
                     (completeness_scores @ [percentage]) w1)))"

definition completeness_table ::
  "(rat \<Rightarrow> string) \<Rightarrow> 'w backend \<Rightarrow> string \<Rightarrow> string \<Rightarrow> feed_metadata
     \<Rightarrow> string \<times> feed_metadata list \<Rightarrow> 'w \<Rightarrow> completeness_result \<times> 'w" where
  "completeness_table str_float be dbn tbl m0 g w =
     (let result =
            \<lparr>validation_type = ''completeness_check'', res_db_name = dbn, table_name = tbl,
             feed_name = feed m0, validation_status = PASS, error_message = None,
             total_rows = 0, column_completeness = [], overall_completeness_score = 0\<rparr>
      in case get_row_count be dbn tbl None w of
           (Inl e, w1) \<Rightarrow> (set_error ''Error validating completeness checks: '' e result, w1)
         | (Inr rows, w1) \<Rightarrow>
             (let result = result\<lparr>total_rows := rows\<rparr>
              in if rows = 0
                 then (set_fail ''Table is empty - cannot check completeness'' result, w1)
                 else (case completeness_columns be dbn tbl rows (snd g) [] [] w1 of
                         ((entries, Inl e), w2) \<Rightarrow>
                           (set_error ''Error validating completeness checks: '' e
                              (result\<lparr>column_completeness := entries\<rparr>), w2)
                       | ((entries, Inr completeness_scores), w2) \<Rightarrow>
                           (let result = result\<lparr>column_completeness := entries\<rparr>
                            in case py_mean completeness_scores of
                                 Inl e \<Rightarrow>
                                   (set_error ''Error validating completeness checks: '' e result, w2)
                               | Inr overall_score \<Rightarrow>
                                   (let result = result\<lparr>overall_completeness_score :=
                                                           py_round2 overall_score\<rparr>
                                    in (if overall_score < 95
                                        then set_fail (''Low completeness score: ''
                                               @ str_float overall_score @ ''%'') result
                                        else result, w2))))))"

definition validate_completeness_checks ::
  "(rat \<Rightarrow> string) \<Rightarrow> 'w backend \<Rightarrow> feed_metadata list \<Rightarrow> string list option \<Rightarrow> 'w
     \<Rightarrow> (string + completeness_result list) \<times> 'w" where
  "validate_completeness_checks str_float be metadata selected_feeds w =
     outer_handler ''Error in completeness checks validation: ''
       (for_each_group (in_group (completeness_table str_float be))
          (table_groups (filter_feeds selected_feeds metadata)) w)"

section \<open>Predicates used in the statements\<close>

text \<open>
  The verdict of the connector on one column of the actual schema: the column is declared
  and its type is compatible with the declared one.
\<close>

definition column_matches :: "(string \<rightharpoonup> string) \<Rightarrow> column_info \<Rightarrow> bool" where
  "column_matches expected_schema c =
     (case expected_schema (col_name c) of
        None \<Rightarrow> False
      | Some t \<Rightarrow> compare_data_types (upper (col_type c)) (upper t))"

text \<open>A result that reports an exception: status ERROR and the message after the prefix.\<close>

definition reports_error :: "string \<Rightarrow> string \<Rightarrow> 'a vresult_scheme \<Rightarrow> bool" where
  "reports_error prefix e r \<longleftrightarrow>
     validation_status r = ERROR \<and> error_message r = Some (prefix @ e)"

section \<open>Sample inputs\<close>

subsection \<open>Metadata\<close>

definition customer_id :: feed_metadata where
  "customer_id =
     \<lparr>modules = ''Sales'', feed = ''customers'', feed_list = [''customers''],
      field_name = ''customer_id'', db_name = ''server1_db'', db_table = ''customers'',
      data_type = ''INTEGER'', nullable = ''N'', request = ''Insert'', default_value = None,
      enumeration = None, range_bottom = None, range_top = None, mandatory = ''Y'',
      unique = ''Y''\<rparr>"

definition customer_status :: feed_metadata where
  "customer_status =
     \<lparr>modules = ''Sales'', feed = ''customers'', feed_list = [''customers''],
      field_name = ''status'', db_name = ''server1_db'', db_table = ''customers'',
      data_type = ''VARCHAR'', nullable = ''Y'', request = ''Insert'', default_value = None,
      enumeration = Some ''X'', range_bottom = None, range_top = None, mandatory = ''N'',
      unique = ''N''\<rparr>"

definition order_id :: feed_metadata where
  "order_id =
     \<lparr>modules = ''Sales'', feed = ''orders'', feed_list = [''orders''],
      field_name = ''order_id'', db_name = ''server1_db'', db_table = ''orders'',
      data_type = ''INTEGER'', nullable = ''N'', request = ''Append'', default_value = None,
      enumeration = None, range_bottom = None, range_top = None, mandatory = ''Y'',
      unique = ''Y''\<rparr>"

definition status_catalog :: "enumeration_metadata list" where
  "status_catalog =
     [\<lparr>enumeration_name = ''STATUS'', enum_values = ''ACTIVE''\<rparr>,
      \<lparr>enumeration_name = ''STATUS'', enum_values = ''CLOSED''\<rparr>]"

subsection \<open>Backends\<close>

text \<open>
  A backend whose world is the number of operations performed on it so far. Its answers
  are functions of the table name and of the query text.
\<close>

definition counting_backend ::
  "(string \<Rightarrow> string + table_schema) \<Rightarrow> (string \<Rightarrow> string + dataframe) \<Rightarrow> nat backend" where
  "counting_backend schema_answer query_answer =
     \<lparr>inspect_table = (\<lambda>eng tbl n. (schema_answer tbl, Suc n)),
      read_sql_query = (\<lambda>eng query n. (query_answer query, Suc n))\<rparr>"

text \<open>
  Answers to the counting queries, chosen by the alias that the query text gives its
  aggregate.
\<close>

fun count_answers :: "(string \<times> int) list \<Rightarrow> string \<Rightarrow> string + dataframe" where
  "count_answers [] query = Inl ''Invalid object name''"
| "count_answers ((alias, n) # rest) query =
     (if contains (''as '' @ alias) query then Inr [[(alias, n)]] else count_answers rest query)"

definition customers_schema :: "bool \<Rightarrow> string \<Rightarrow> string + table_schema" where
  "customers_schema id_nullable tbl =
     (if tbl = ''customers''
      then Inr \<lparr>columns = [\<lparr>col_name = ''customer_id'', col_type = ''INTEGER'',
                             col_nullable = id_nullable\<rparr>],
                primary_keys = [''customer_id'']\<rparr>
      else Inl ''Invalid object name'')"

definition unreachable_backend :: "nat backend" where
  "unreachable_backend =
     counting_backend (\<lambda>tbl. Inl ''connection refused'') (\<lambda>query. Inl ''connection refused'')"

text \<open>Ten rows, nine distinct identifiers, no null.\<close>

definition duplicates_backend :: "nat backend" where
  "duplicates_backend =
     counting_backend (customers_schema False)
       (count_answers [(''row_count'', 10), (''null_count'', 0), (''total_count'', 10),
                       (''distinct_count'', 9)])"

text \<open>
  The two counts of the uniqueness check come from two separate queries. Here a row with a
  new value arrives between them: one row is counted, then two distinct values.
\<close>

definition racing_backend :: "nat backend" where
  "racing_backend =
     counting_backend (customers_schema False)
       (count_answers [(''total_count'', 1), (''distinct_count'', 2)])"

text \<open>No null in the column, which the schema nevertheless declares nullable.\<close>

definition lenient_schema_backend :: "nat backend" where
  "lenient_schema_backend =
     counting_backend (customers_schema True)
       (count_answers [(''row_count'', 10), (''null_count'', 0)])"



text \<open>An empty table.\<close>

definition empty_table_backend :: "nat backend" where
  "empty_table_backend =
     counting_backend (customers_schema False)
       (count_answers [(''row_count'', 0), (''null_count'', 0)])"

text \<open>The table \<open>orders\<close> cannot be read; the table \<open>customers\<close> has ten rows.\<close>

definition partly_reachable_backend :: "nat backend" where
  "partly_reachable_backend =
     counting_backend
       (\<lambda>tbl. if tbl = ''orders'' then Inl ''connection refused'' else customers_schema False tbl)
       (\<lambda>query. if contains ''orders'' query then Inl ''connection refused''
                 else count_answers [(''row_count'', 10), (''null_count'', 0),
                                     (''total_count'', 10), (''distinct_count'', 9)] query)"

section \<open>Properties\<close>

lemma starts_with_iff: "starts_with s v \<longleftrightarrow> (\<exists>q. s = v @ q)"
  by (induction s v rule: starts_with.induct) auto

lemma contains_iff: "contains v s \<longleftrightarrow> (\<exists>p q. s = p @ v @ q)"
proof (induction s)
  case Nil
  then show ?case by simp
next
  case (Cons c s)
  show ?case
  proof
    assume "contains v (c # s)"
    then consider "starts_with (c # s) v" | "contains v s" by auto
    then show "\<exists>p q. c # s = p @ v @ q"
    proof cases
      case 1
      then obtain q where "c # s = v @ q" by (auto simp: starts_with_iff)
      then have "c # s = [] @ v @ q" by simp
      then show ?thesis by blast
    next
      case 2
      with Cons obtain p q where "s = p @ v @ q" by auto
      then have "c # s = (c # p) @ v @ q" by simp
      then show ?thesis by blast
    qed
  next
    assume "\<exists>p q. c # s = p @ v @ q"
    then obtain p q where pq: "c # s = p @ v @ q" by auto
    show "contains v (c # s)"
    proof (cases p)
      case Nil
      with pq have "starts_with (c # s) v" by (auto simp: starts_with_iff)
      then show ?thesis by simp
    next
      case (Cons d p')
      with pq have "s = p' @ v @ q" by simp
      with Cons.IH have "contains v s" by blast
      then show ?thesis by simp
    qed
  qed
qed

lemma bucket_cases: "(\<exists>b. P b) \<longleftrightarrow> P TextLike \<or> P IntegerLike \<or> P DecimalLike \<or> P DatetimeLike \<or> P BooleanLike"
proof
  assume "\<exists>b. P b"
  then obtain b where "P b" ..
  then show "P TextLike \<or> P IntegerLike \<or> P DecimalLike \<or> P DatetimeLike \<or> P BooleanLike"
    by (cases b) auto
qed auto

text \<open>
  C8. The comparison of the connector answers true exactly when some bucket classifies both
  the actual and the expected type string, or the two strings are equal; it agrees with
  \<open>type_compatible\<close>, the predicate as the specification words it.
\<close>

theorem compare_data_types_same_bucket_or_equal:
  "(compare_data_types actual_t expected_t \<longleftrightarrow>
      (\<exists>b. classifies actual_t b \<and> classifies expected_t b) \<or> actual_t = expected_t)
   \<and> compare_data_types actual_t expected_t = type_compatible actual_t expected_t"
  unfolding bucket_cases
  by (simp add: compare_data_types_def type_mappings_def classifies_def type_compatible_def)

theorem compare_data_types_same_bucket_or_equal_witness:
  "compare_data_types ''NVARCHAR(50)'' ''STRING''
   \<and> classifies ''NVARCHAR(50)'' TextLike \<and> classifies ''STRING'' TextLike
   \<and> \<not> compare_data_types ''INT'' ''DATE''
   \<and> \<not> (\<exists>b. classifies ''INT'' b \<and> classifies ''DATE'' b)
   \<and> \<not> type_compatible ''INT'' ''DATE''"
proof -
  have a: "classifies ''NVARCHAR(50)'' TextLike" by (simp add: classifies_def)
  have b: "classifies ''STRING'' TextLike" by (simp add: classifies_def)
  have c: "\<not> compare_data_types ''INT'' ''DATE''"
    by (simp add: compare_data_types_def type_mappings_def)
  from a b have "compare_data_types ''NVARCHAR(50)'' ''STRING''"
    using compare_data_types_same_bucket_or_equal [of "''NVARCHAR(50)''" "''STRING''"] by blast
  moreover from c have "\<not> (\<exists>b. classifies ''INT'' b \<and> classifies ''DATE'' b)"
    and "\<not> type_compatible ''INT'' ''DATE''"
    using compare_data_types_same_bucket_or_equal [of "''INT''" "''DATE''"] by blast+
  ultimately show ?thesis using a b c by blast
qed

subsection \<open>The loops and the grouping\<close>

lemma for_each_column_all2:
  "list_all2 (\<lambda>m r. \<exists>w0. r = fst (body m w0)) ms (fst (for_each_column body ms w))"
proof (induction ms arbitrary: w)
  case Nil
  then show ?case by simp
next
  case (Cons m ms)
  obtain r w1 where b: "body m w = (r, w1)" by (cases "body m w")
  obtain rs w2 where l: "for_each_column body ms w1 = (rs, w2)" by (cases "for_each_column body ms w1")
  have "r = fst (body m w)" using b by simp
  then have "\<exists>w0. r = fst (body m w0)" ..
  moreover have "list_all2 (\<lambda>m r. \<exists>w0. r = fst (body m w0)) ms rs"
    using Cons.IH [of w1] l by simp
  ultimately show ?case using b l by simp
qed

lemma for_each_group_in_group:
  assumes "\<forall>g\<in>set gs. \<exists>h. group_header g = Inr h"
  shows "\<exists>rs w'. for_each_group (in_group body) gs w = (Inr rs, w')
           \<and> list_all2 (\<lambda>g r. \<exists>dbn tbl m0 w0. group_header g = Inr (dbn, tbl, m0)
                                  \<and> r = fst (body dbn tbl m0 g w0)) gs rs"
  using assms
proof (induction gs arbitrary: w)
  case Nil
  then show ?case by simp
next
  case (Cons g gs)
  from Cons.prems obtain h where "group_header g = Inr h" by auto
  then obtain dbn tbl m0 where h: "group_header g = Inr (dbn, tbl, m0)"
    by (cases h) auto
  obtain r w1 where b: "body dbn tbl m0 g w = (r, w1)" by (cases "body dbn tbl m0 g w")
  from Cons.prems have "\<forall>g\<in>set gs. \<exists>h. group_header g = Inr h" by simp
  from Cons.IH [OF this, of w1] obtain rs w2 where l: "for_each_group (in_group body) gs w1 = (Inr rs, w2)"
    and a: "list_all2 (\<lambda>g r. \<exists>dbn tbl m0 w0. group_header g = Inr (dbn, tbl, m0)
                                  \<and> r = fst (body dbn tbl m0 g w0)) gs rs"
    by blast
  have "r = fst (body dbn tbl m0 g w)" using b by simp
  with h have "\<exists>dbn tbl m0 w0. group_header g = Inr (dbn, tbl, m0) \<and> r = fst (body dbn tbl m0 g w0)"
    by blast
  with a have "list_all2 (\<lambda>g r. \<exists>dbn tbl m0 w0. group_header g = Inr (dbn, tbl, m0)
                                  \<and> r = fst (body dbn tbl m0 g w0)) (g # gs) (r # rs)"
    by simp
  moreover have "for_each_group (in_group body) (g # gs) w = (Inr (r # rs), w2)"
    using h b l by (simp add: in_group_def)
  ultimately show ?case by blast
qed

lemma map_of_group_append:
  "map_of (group_append groups key x) k =
     (if k = key then Some ((case map_of groups key of None \<Rightarrow> [] | Some xs \<Rightarrow> xs) @ [x])
      else map_of groups k)"
  by (induction groups key x rule: group_append.induct) auto

lemma keys_group_append:
  "map fst (group_append groups key x) = (if key \<in> set (map fst groups) then map fst groups else map fst groups @ [key])"
  by (induction groups key x rule: group_append.induct) auto

lemma distinct_group_append:
  "distinct (map fst groups) \<Longrightarrow> distinct (map fst (group_append groups key x))"
  by (simp add: keys_group_append)


lemma foldl_group_distinct:
  "distinct (map fst groups) \<Longrightarrow>
   distinct (map fst (foldl (\<lambda>gs x. group_append gs (key x) (val x)) groups xs))"
  by (induction xs arbitrary: groups) (simp_all add: distinct_group_append)

lemma foldl_group_map_of:
  "map_of (foldl (\<lambda>gs x. group_append gs (key x) (val x)) groups xs) k =
     (case map_of groups k of
        None \<Rightarrow> (if filter (\<lambda>x. key x = k) xs = [] then None
                  else Some (map val (filter (\<lambda>x. key x = k) xs)))
      | Some zs \<Rightarrow> Some (zs @ map val (filter (\<lambda>x. key x = k) xs)))"
proof (induction xs arbitrary: groups)
  case Nil
  then show ?case by (simp split: option.splits)
next
  case (Cons x xs)
  show ?case
    by (simp add: Cons.IH map_of_group_append split: option.splits)
qed

lemma table_groups_distinct: "distinct (map fst (table_groups metadata))"
  unfolding table_groups_def
  using foldl_group_distinct [of "[]" table_key "\<lambda>m. m" metadata] by simp

lemma table_groups_map_of:
  "map_of (table_groups metadata) k =
     (if filter (\<lambda>m. table_key m = k) metadata = [] then None
      else Some (filter (\<lambda>m. table_key m = k) metadata))"
  unfolding table_groups_def
  using foldl_group_map_of [of table_key "\<lambda>m. m" "[]" metadata k] by simp

lemma table_groups_member:
  assumes "g \<in> set (table_groups metadata)"
  shows "snd g = filter (\<lambda>m. table_key m = fst g) metadata \<and> snd g \<noteq> []"
proof -
  have "(fst g, snd g) \<in> set (table_groups metadata)" using assms by simp
  then have "map_of (table_groups metadata) (fst g) = Some (snd g)"
    using table_groups_distinct [of metadata] by simp
  then show ?thesis
    by (simp add: table_groups_map_of split: if_splits)
qed

lemma split_key_table_key:
  "split_key (table_key m) =
     Inr (takeWhile (\<lambda>c. c \<noteq> CHR ''.'') (table_key m), tl (dropWhile (\<lambda>c. c \<noteq> CHR ''.'') (table_key m)))"
  by (simp add: split_key_def table_key_def)

lemma table_groups_header:
  assumes "g \<in> set (table_groups metadata)"
  shows "\<exists>dbn tbl m0. group_header g = Inr (dbn, tbl, m0)"
proof -
  from table_groups_member [OF assms]
  have f: "snd g = filter (\<lambda>m. table_key m = fst g) metadata" and n: "snd g \<noteq> []"
    by blast+
  from n obtain m0 rest where s: "snd g = m0 # rest"
    by (cases "snd g") simp_all
  from s f have "m0 \<in> set (filter (\<lambda>m. table_key m = fst g) metadata)" by simp
  then have "table_key m0 = fst g" by simp
  then have "split_key (fst g) = Inr (takeWhile (\<lambda>c. c \<noteq> CHR ''.'') (fst g), tl (dropWhile (\<lambda>c. c \<noteq> CHR ''.'') (fst g)))"
    using split_key_table_key [of m0] by simp
  with s show ?thesis by (simp add: group_header_def)
qed

lemma group_validator_results:
  "\<exists>rs w'. outer_handler prefix (for_each_group (in_group body) (table_groups metadata) w) = (Inr rs, w')
           \<and> list_all2 (\<lambda>g r. \<exists>dbn tbl m0 w0. group_header g = Inr (dbn, tbl, m0)
                                  \<and> r = fst (body dbn tbl m0 g w0)) (table_groups metadata) rs"
proof -
  have "\<forall>g\<in>set (table_groups metadata). \<exists>h. group_header g = Inr h"
    using table_groups_header by blast
  from for_each_group_in_group [OF this, of body w] obtain rs w'
    where "for_each_group (in_group body) (table_groups metadata) w = (Inr rs, w')"
      and "list_all2 (\<lambda>g r. \<exists>dbn tbl m0 w0. group_header g = Inr (dbn, tbl, m0)
                                  \<and> r = fst (body dbn tbl m0 g w0)) (table_groups metadata) rs"
    by blast
  then show ?thesis by (auto simp: outer_handler_def)
qed

text \<open>
  C9. Every validator returns the empty list of results on an empty metadata list, whatever
  the feed filter, the enumeration catalog, the expected counts and the backend are, and
  performs no operation on the backend.
\<close>

theorem validators_empty_metadata:
  "validate_data_types be [] sel w = (Inr [], w)
   \<and> validate_nullable_constraints be [] sel w = ([], w)
   \<and> validate_unique_constraints be [] sel w = ([], w)
   \<and> validate_range_constraints be [] sel w = ([], w)
   \<and> validate_enumeration_constraints be [] ems sel w = ([], w)
   \<and> validate_insert_append_logic be [] sel w = (Inr [], w)
   \<and> validate_count_checks be [] ec sel w = (Inr [], w)
   \<and> validate_completeness_checks sf be [] sel w = (Inr [], w)"
proof -
  have f: "filter_feeds sel [] = []"
    by (simp add: filter_feeds_def split: option.splits list.splits)
  have g: "table_groups [] = []" by (simp add: table_groups_def)
  show ?thesis
    by (simp add: f g validate_data_types_def validate_nullable_constraints_def
        validate_unique_constraints_def validate_range_constraints_def
        validate_enumeration_constraints_def validate_insert_append_logic_def
        validate_count_checks_def validate_completeness_checks_def outer_handler_def)
qed

theorem validators_empty_metadata_witness:
  "validate_data_types unreachable_backend [] (Some [''feed_a'']) 0 = (Inr [], 0)
   \<and> validate_nullable_constraints unreachable_backend [] (Some [''feed_a'']) 0 = ([], 0)
   \<and> validate_unique_constraints unreachable_backend [] (Some [''feed_a'']) 0 = ([], 0)
   \<and> validate_range_constraints unreachable_backend [] (Some [''feed_a'']) 0 = ([], 0)
   \<and> validate_enumeration_constraints unreachable_backend [] [] (Some [''feed_a'']) 0 = ([], 0)
   \<and> validate_insert_append_logic unreachable_backend [] (Some [''feed_a'']) 0 = (Inr [], 0)
   \<and> validate_count_checks unreachable_backend [] None (Some [''feed_a'']) 0 = (Inr [], 0)
   \<and> validate_completeness_checks (\<lambda>x. []) unreachable_backend [] (Some [''feed_a'']) 0
         = (Inr [], 0)"
  by (rule validators_empty_metadata)

subsection \<open>Nullable and mandatory columns\<close>

lemma nullable_column_result:
  assumes "check_nullable_constraints be (db_name meta) (db_table meta) (field_name meta) w0
             = (Inr (actual, nulls), w1)"
  shows "actual_nullable (fst (nullable_column be meta w0)) = actual"
    and "null_count (fst (nullable_column be meta w0)) = nulls"
    and "validation_status (fst (nullable_column be meta w0)) =
           (if (upper (mandatory meta) = ''Y'' \<and> 0 < nulls)
               \<or> actual \<noteq> Some (upper (nullable meta) = ''Y'') then FAIL else PASS)"
  using assms by (simp_all add: nullable_column_def set_fail_def Let_def)

text \<open>
  C4, as the code has it. The results of the nullable validator correspond one to one, in
  order, to the selected records. For a record with \<open>mandatory = 'Y'\<close> for which the
  connector returns the schema's nullable flag and the null count, the status is FAIL
  exactly when the null count is positive or the schema's flag differs from the declared
  \<open>nullable\<close> flag, and PASS otherwise.
\<close>

theorem nullable_mandatory_fail_iff:
  "list_all2
     (\<lambda>meta r. \<exists>w0. r = fst (nullable_column be meta w0) \<and>
        (upper (mandatory meta) = ''Y'' \<longrightarrow>
           (\<forall>actual nulls w1.
              check_nullable_constraints be (db_name meta) (db_table meta) (field_name meta) w0
                = (Inr (actual, nulls), w1) \<longrightarrow>
              null_count r = nulls \<and> actual_nullable r = actual
              \<and> (validation_status r = FAIL \<longleftrightarrow>
                     0 < nulls \<or> actual \<noteq> Some (upper (nullable meta) = ''Y''))
              \<and> (validation_status r = PASS \<longleftrightarrow>
                     nulls \<le> 0 \<and> actual = Some (upper (nullable meta) = ''Y'')))))
     (filter_feeds sel metadata)
     (fst (validate_nullable_constraints be metadata sel w))"
proof -
  have a: "list_all2 (\<lambda>m r. \<exists>w0. r = fst (nullable_column be m w0)) (filter_feeds sel metadata)
             (fst (validate_nullable_constraints be metadata sel w))"
    unfolding validate_nullable_constraints_def by (rule for_each_column_all2)
  show ?thesis
  proof (rule list_all2_mono [OF a])
    fix meta r
    assume "\<exists>w0. r = fst (nullable_column be meta w0)"
    then obtain w0 where r: "r = fst (nullable_column be meta w0)" by blast
    have "upper (mandatory meta) = ''Y'' \<longrightarrow>
           (\<forall>actual nulls w1.
              check_nullable_constraints be (db_name meta) (db_table meta) (field_name meta) w0
                = (Inr (actual, nulls), w1) \<longrightarrow>
              null_count r = nulls \<and> actual_nullable r = actual
              \<and> (validation_status r = FAIL \<longleftrightarrow>
                     0 < nulls \<or> actual \<noteq> Some (upper (nullable meta) = ''Y''))
              \<and> (validation_status r = PASS \<longleftrightarrow>
                     nulls \<le> 0 \<and> actual = Some (upper (nullable meta) = ''Y'')))"
      using nullable_column_result [of be meta w0] r by auto
    with r show "\<exists>w0. r = fst (nullable_column be meta w0) \<and>
        (upper (mandatory meta) = ''Y'' \<longrightarrow>
           (\<forall>actual nulls w1.
              check_nullable_constraints be (db_name meta) (db_table meta) (field_name meta) w0
                = (Inr (actual, nulls), w1) \<longrightarrow>
              null_count r = nulls \<and> actual_nullable r = actual
              \<and> (validation_status r = FAIL \<longleftrightarrow>
                     0 < nulls \<or> actual \<noteq> Some (upper (nullable meta) = ''Y''))
              \<and> (validation_status r = PASS \<longleftrightarrow>
                     nulls \<le> 0 \<and> actual = Some (upper (nullable meta) = ''Y''))))"
      by blast
  qed
qed

theorem nullable_mandatory_fail_iff_witness:
  "upper (mandatory customer_id) = ''Y''
   \<and> fst (check_nullable_constraints duplicates_backend (db_name customer_id) (db_table customer_id)
            (field_name customer_id) 0) = Inr (Some False, 0)
   \<and> map validation_status (fst (validate_nullable_constraints duplicates_backend [customer_id] None 0))
       = [PASS]
   \<and> list_all2
     (\<lambda>meta r. \<exists>w0. r = fst (nullable_column duplicates_backend meta w0) \<and>
        (upper (mandatory meta) = ''Y'' \<longrightarrow>
           (\<forall>actual nulls w1.
              check_nullable_constraints duplicates_backend (db_name meta) (db_table meta) (field_name meta) w0
                = (Inr (actual, nulls), w1) \<longrightarrow>
              null_count r = nulls \<and> actual_nullable r = actual
              \<and> (validation_status r = FAIL \<longleftrightarrow>
                     0 < nulls \<or> actual \<noteq> Some (upper (nullable meta) = ''Y''))
              \<and> (validation_status r = PASS \<longleftrightarrow>
                     nulls \<le> 0 \<and> actual = Some (upper (nullable meta) = ''Y'')))))
     (filter_feeds None [customer_id])
     (fst (validate_nullable_constraints duplicates_backend [customer_id] None 0))"
proof -
  have "upper (mandatory customer_id) = ''Y''
   \<and> fst (check_nullable_constraints duplicates_backend (db_name customer_id) (db_table customer_id)
            (field_name customer_id) 0) = Inr (Some False, 0)
   \<and> map validation_status (fst (validate_nullable_constraints duplicates_backend [customer_id] None 0))
       = [PASS]"
    by code_simp
  then show ?thesis
    using nullable_mandatory_fail_iff [of duplicates_backend None "[customer_id]" 0] by blast
qed

text \<open>
  A mandatory column without any null whose schema flag differs from the declared one: the
  null count is 0 and the status is FAIL.
\<close>

theorem nullable_mandatory_fail_iff_counterexample:
  "upper (mandatory customer_id) = ''Y''
   \<and> fst (check_nullable_constraints lenient_schema_backend (db_name customer_id)
            (db_table customer_id) (field_name customer_id) 0) = Inr (Some True, 0)
   \<and> map null_count (fst (validate_nullable_constraints lenient_schema_backend [customer_id] None 0))
       = [0]
   \<and> map validation_status
        (fst (validate_nullable_constraints lenient_schema_backend [customer_id] None 0)) = [FAIL]"
  by code_simp

subsection \<open>Unique columns\<close>

lemma unique_column_result:
  assumes "check_unique_constraints be (db_name meta) (db_table meta) (field_name meta) w0 = (Inr (t, d), w1)"
  shows "total_count (fst (unique_column be meta w0)) = t"
    and "distinct_count (fst (unique_column be meta w0)) = d"
    and "duplicate_count (fst (unique_column be meta w0)) = t - d"
    and "validation_status (fst (unique_column be meta w0)) = (if t \<noteq> d then FAIL else PASS)"
  using assms by (simp_all add: unique_column_def set_fail_def Let_def)

text \<open>
  C5, as the code has it. The results of the unique validator correspond one to one, in
  order, to the selected records with \<open>unique = 'Y'\<close>. When the connector returns the two
  counts, the result carries them, \<open>duplicate_count\<close> is their difference, and the status
  is FAIL exactly when the difference is not zero, that is when the counts differ. The
  difference is not negative, and FAIL means a positive difference, when the distinct count
  does not exceed the total count; the validator does not check that it does not.
\<close>

theorem unique_duplicate_count:
  "list_all2
     (\<lambda>meta r. upper (unique meta) = ''Y'' \<and>
        (\<exists>w0. r = fst (unique_column be meta w0) \<and>
           (\<forall>t d w1. check_unique_constraints be (db_name meta) (db_table meta) (field_name meta) w0
                        = (Inr (t, d), w1) \<longrightarrow>
              total_count r = t \<and> distinct_count r = d \<and> duplicate_count r = t - d
              \<and> (validation_status r = FAIL \<longleftrightarrow> duplicate_count r \<noteq> 0)
              \<and> (validation_status r = FAIL \<longleftrightarrow> t \<noteq> d)
              \<and> (validation_status r = PASS \<longleftrightarrow> duplicate_count r = 0)
              \<and> (d \<le> t \<longrightarrow> 0 \<le> duplicate_count r
                     \<and> (validation_status r = FAIL \<longleftrightarrow> 0 < duplicate_count r)))))
     (filter (\<lambda>meta. upper (unique meta) = ''Y'') (filter_feeds sel metadata))
     (fst (validate_unique_constraints be metadata sel w))"
proof -
  let ?ms = "filter (\<lambda>meta. upper (unique meta) = ''Y'') (filter_feeds sel metadata)"
  have a: "list_all2 (\<lambda>m r. \<exists>w0. r = fst (unique_column be m w0)) ?ms
             (fst (validate_unique_constraints be metadata sel w))"
    unfolding validate_unique_constraints_def Let_def by (rule for_each_column_all2)
  show ?thesis
  proof (rule list.rel_mono_strong [OF a])
    fix meta r
    assume m: "meta \<in> set ?ms" and "\<exists>w0. r = fst (unique_column be meta w0)"
    then obtain w0 where r: "r = fst (unique_column be meta w0)" by blast
    have "(\<forall>t d w1. check_unique_constraints be (db_name meta) (db_table meta) (field_name meta) w0
                        = (Inr (t, d), w1) \<longrightarrow>
              total_count r = t \<and> distinct_count r = d \<and> duplicate_count r = t - d
              \<and> (validation_status r = FAIL \<longleftrightarrow> duplicate_count r \<noteq> 0)
              \<and> (validation_status r = FAIL \<longleftrightarrow> t \<noteq> d)
              \<and> (validation_status r = PASS \<longleftrightarrow> duplicate_count r = 0)
              \<and> (d \<le> t \<longrightarrow> 0 \<le> duplicate_count r
                     \<and> (validation_status r = FAIL \<longleftrightarrow> 0 < duplicate_count r)))"
      using unique_column_result [of be meta w0] r by auto
    with m r show "upper (unique meta) = ''Y'' \<and>
        (\<exists>w0. r = fst (unique_column be meta w0) \<and>
           (\<forall>t d w1. check_unique_constraints be (db_name meta) (db_table meta) (field_name meta) w0
                        = (Inr (t, d), w1) \<longrightarrow>
              total_count r = t \<and> distinct_count r = d \<and> duplicate_count r = t - d
              \<and> (validation_status r = FAIL \<longleftrightarrow> duplicate_count r \<noteq> 0)
              \<and> (validation_status r = FAIL \<longleftrightarrow> t \<noteq> d)
              \<and> (validation_status r = PASS \<longleftrightarrow> duplicate_count r = 0)
              \<and> (d \<le> t \<longrightarrow> 0 \<le> duplicate_count r
                     \<and> (validation_status r = FAIL \<longleftrightarrow> 0 < duplicate_count r))))"
      by auto
  qed
qed

theorem unique_duplicate_count_witness:
  "fst (check_unique_constraints duplicates_backend (db_name customer_id) (db_table customer_id)
          (field_name customer_id) 0) = Inr (10, 9)
   \<and> map duplicate_count (fst (validate_unique_constraints duplicates_backend [customer_id] None 0))
       = [1]
   \<and> map validation_status (fst (validate_unique_constraints duplicates_backend [customer_id] None 0))
       = [FAIL]
   \<and> list_all2
     (\<lambda>meta r. upper (unique meta) = ''Y'' \<and>
        (\<exists>w0. r = fst (unique_column duplicates_backend meta w0) \<and>
           (\<forall>t d w1. check_unique_constraints duplicates_backend (db_name meta) (db_table meta) (field_name meta) w0
                        = (Inr (t, d), w1) \<longrightarrow>
              total_count r = t \<and> distinct_count r = d \<and> duplicate_count r = t - d
              \<and> (validation_status r = FAIL \<longleftrightarrow> duplicate_count r \<noteq> 0)
              \<and> (validation_status r = FAIL \<longleftrightarrow> t \<noteq> d)
              \<and> (validation_status r = PASS \<longleftrightarrow> duplicate_count r = 0)
              \<and> (d \<le> t \<longrightarrow> 0 \<le> duplicate_count r
                     \<and> (validation_status r = FAIL \<longleftrightarrow> 0 < duplicate_count r)))))
     (filter (\<lambda>meta. upper (unique meta) = ''Y'') (filter_feeds None [customer_id]))
     (fst (validate_unique_constraints duplicates_backend [customer_id] None 0))"
proof -
  have "fst (check_unique_constraints duplicates_backend (db_name customer_id) (db_table customer_id)
          (field_name customer_id) 0) = Inr (10, 9)
   \<and> map duplicate_count (fst (validate_unique_constraints duplicates_backend [customer_id] None 0))
       = [1]
   \<and> map validation_status (fst (validate_unique_constraints duplicates_backend [customer_id] None 0))
       = [FAIL]"
    by code_simp
  then show ?thesis
    using unique_duplicate_count [of duplicates_backend None "[customer_id]" 0] by blast
qed

text \<open>
  With one row counted and then two distinct values, the record with \<open>unique = 'Y'\<close> gets
  a negative \<open>duplicate_count\<close> and the status FAIL.
\<close>

theorem unique_duplicate_count_counterexample:
  "upper (unique customer_id) = ''Y''
   \<and> fst (check_unique_constraints racing_backend (db_name customer_id) (db_table customer_id)
            (field_name customer_id) 0) = Inr (1, 2)
   \<and> map duplicate_count (fst (validate_unique_constraints racing_backend [customer_id] None 0))
       = [- 1]
   \<and> map validation_status (fst (validate_unique_constraints racing_backend [customer_id] None 0))
       = [FAIL]"
  by code_simp

subsection \<open>Enumerations\<close>

lemma enum_lookup_get_values:
  "enum_lookup_get (enum_lookup_of enumeration_metadata) (Some n) =
     map enum_values (filter (\<lambda>em. enumeration_name em = n) enumeration_metadata)"
  unfolding enum_lookup_get_def enum_lookup_of_def
  using foldl_group_map_of [of enumeration_name enum_values "[]" enumeration_metadata n]
  by simp

lemma enum_lookup_get_unresolved:
  assumes "\<forall>em\<in>set enumeration_metadata. Some (enumeration_name em) \<noteq> name"
  shows "enum_lookup_get (enum_lookup_of enumeration_metadata) name = []"
proof (cases name)
  case None
  then show ?thesis by (simp add: enum_lookup_get_def)
next
  case (Some n)
  with assms have "filter (\<lambda>em. enumeration_name em = n) enumeration_metadata = []"
    by (auto simp: filter_empty_conv)
  with Some show ?thesis by (simp add: enum_lookup_get_values)
qed

lemma enumeration_column_unresolved:
  assumes "enum_lookup_get enum_lookup (enumeration meta) = []"
  shows "enumeration_column be enum_lookup meta w0 =
           (\<lparr>validation_type = ''enumeration_constraint'', res_db_name = db_name meta,
             table_name = db_table meta, feed_name = feed meta, validation_status = ERROR,
             error_message = Some (''Enumeration '' @ opt_str (enumeration meta)
                                     @ '' not found in metadata''),
             column_name = field_name meta, res_enumeration_name = enumeration meta,
             allowed_values = [], invalid_count = 0\<rparr>, w0)"
  using assms by (simp add: enumeration_column_def Let_def)

text \<open>
  C6. The results of the enumeration validator correspond one to one, in order, to the
  selected records that have an enumeration reference. When no row of the catalog carries
  the referenced name, the result of the record is the ERROR record below, and the
  iteration for the record hands back the state of the outside world it was given,
  whatever the backend is: it performs no operation on a store.
\<close>

theorem enumeration_unresolved_error:
  "list_all2
     (\<lambda>meta r. truthy (enumeration meta) \<and>
        ((\<forall>em\<in>set enumeration_metadata. Some (enumeration_name em) \<noteq> enumeration meta) \<longrightarrow>
           r = \<lparr>validation_type = ''enumeration_constraint'', res_db_name = db_name meta,
                table_name = db_table meta, feed_name = feed meta, validation_status = ERROR,
                error_message = Some (''Enumeration '' @ opt_str (enumeration meta)
                                        @ '' not found in metadata''),
                column_name = field_name meta, res_enumeration_name = enumeration meta,
                allowed_values = [], invalid_count = 0\<rparr>
           \<and> (\<forall>(other :: 'v backend) w0. enumeration_column other (enum_lookup_of enumeration_metadata) meta w0
                             = (r, w0))))
     (filter (\<lambda>meta. truthy (enumeration meta)) (filter_feeds sel metadata))
     (fst (validate_enumeration_constraints be metadata enumeration_metadata sel w))"
proof -
  let ?ms = "filter (\<lambda>meta. truthy (enumeration meta)) (filter_feeds sel metadata)"
  let ?lk = "enum_lookup_of enumeration_metadata"
  have a: "list_all2 (\<lambda>m r. \<exists>w0. r = fst (enumeration_column be ?lk m w0)) ?ms
             (fst (validate_enumeration_constraints be metadata enumeration_metadata sel w))"
    unfolding validate_enumeration_constraints_def Let_def by (rule for_each_column_all2)
  show ?thesis
  proof (rule list.rel_mono_strong [OF a])
    fix meta r
    assume "meta \<in> set ?ms"
    then have t: "truthy (enumeration meta)" by simp
    assume "\<exists>w0. r = fst (enumeration_column be ?lk meta w0)"
    then obtain w0 where r: "r = fst (enumeration_column be ?lk meta w0)" by blast
    have "(\<forall>em\<in>set enumeration_metadata. Some (enumeration_name em) \<noteq> enumeration meta) \<longrightarrow>
           r = \<lparr>validation_type = ''enumeration_constraint'', res_db_name = db_name meta,
                table_name = db_table meta, feed_name = feed meta, validation_status = ERROR,
                error_message = Some (''Enumeration '' @ opt_str (enumeration meta)
                                        @ '' not found in metadata''),
                column_name = field_name meta, res_enumeration_name = enumeration meta,
                allowed_values = [], invalid_count = 0\<rparr>
           \<and> (\<forall>(other :: 'v backend) w0. enumeration_column other (enum_lookup_of enumeration_metadata) meta w0
                             = (r, w0))"
    proof
      assume "\<forall>em\<in>set enumeration_metadata. Some (enumeration_name em) \<noteq> enumeration meta"
      then have e: "enum_lookup_get ?lk (enumeration meta) = []"
        by (rule enum_lookup_get_unresolved)
      have "enumeration_column other ?lk meta v = (fst (enumeration_column be ?lk meta w0), v)"
        for other :: "'v backend" and v
        by (simp add: enumeration_column_unresolved [OF e])
      with r enumeration_column_unresolved [OF e, of be w0]
      show "r = \<lparr>validation_type = ''enumeration_constraint'', res_db_name = db_name meta,
                table_name = db_table meta, feed_name = feed meta, validation_status = ERROR,
                error_message = Some (''Enumeration '' @ opt_str (enumeration meta)
                                        @ '' not found in metadata''),
                column_name = field_name meta, res_enumeration_name = enumeration meta,
                allowed_values = [], invalid_count = 0\<rparr>
           \<and> (\<forall>(other :: 'v backend) w0. enumeration_column other (enum_lookup_of enumeration_metadata) meta w0
                             = (r, w0))"
        by simp
    qed
    with t show "truthy (enumeration meta) \<and> ((\<forall>em\<in>set enumeration_metadata. Some (enumeration_name em) \<noteq> enumeration meta) \<longrightarrow>
           r = \<lparr>validation_type = ''enumeration_constraint'', res_db_name = db_name meta,
                table_name = db_table meta, feed_name = feed meta, validation_status = ERROR,
                error_message = Some (''Enumeration '' @ opt_str (enumeration meta)
                                        @ '' not found in metadata''),
                column_name = field_name meta, res_enumeration_name = enumeration meta,
                allowed_values = [], invalid_count = 0\<rparr>
           \<and> (\<forall>(other :: 'v backend) w0. enumeration_column other (enum_lookup_of enumeration_metadata) meta w0
                             = (r, w0)))"
      by blast
  qed
qed

theorem enumeration_unresolved_error_witness:
  "truthy (enumeration customer_status)
   \<and> list_all (\<lambda>em. Some (enumeration_name em) \<noteq> enumeration customer_status) status_catalog
   \<and> map validation_status
        (fst (validate_enumeration_constraints duplicates_backend [customer_status] status_catalog
                None 0)) = [ERROR]
   \<and> snd (validate_enumeration_constraints duplicates_backend [customer_status] status_catalog
             None 0) = 0
   \<and> list_all2
     (\<lambda>meta r. truthy (enumeration meta) \<and>
        ((\<forall>em\<in>set status_catalog. Some (enumeration_name em) \<noteq> enumeration meta) \<longrightarrow>
           r = \<lparr>validation_type = ''enumeration_constraint'', res_db_name = db_name meta,
                table_name = db_table meta, feed_name = feed meta, validation_status = ERROR,
                error_message = Some (''Enumeration '' @ opt_str (enumeration meta)
                                        @ '' not found in metadata''),
                column_name = field_name meta, res_enumeration_name = enumeration meta,
                allowed_values = [], invalid_count = 0\<rparr>
           \<and> (\<forall>(other :: nat backend) w0. enumeration_column other (enum_lookup_of status_catalog) meta w0
                             = (r, w0))))
     (filter (\<lambda>meta. truthy (enumeration meta)) (filter_feeds None [customer_status]))
     (fst (validate_enumeration_constraints duplicates_backend [customer_status] status_catalog
             None 0))"
proof -
  have "truthy (enumeration customer_status)
   \<and> list_all (\<lambda>em. Some (enumeration_name em) \<noteq> enumeration customer_status) status_catalog
   \<and> map validation_status
        (fst (validate_enumeration_constraints duplicates_backend [customer_status] status_catalog
                None 0)) = [ERROR]
   \<and> snd (validate_enumeration_constraints duplicates_backend [customer_status] status_catalog
             None 0) = 0"
    by code_simp
  then show ?thesis
    using enumeration_unresolved_error
            [where ?'v = nat and enumeration_metadata = status_catalog
               and be = duplicates_backend and sel = None and metadata = "[customer_status]"
               and w = 0]
    by blast
qed

subsection \<open>Completeness\<close>

lemma py_truediv_nonzero:
  "rows \<noteq> 0 \<Longrightarrow> py_truediv a rows = Inr (of_int a / of_int rows)"
  by (simp add: py_truediv_def)



lemma completeness_columns_failure:
  assumes "completeness_columns be dbn tbl rows ms entries scores w = ((entries', Inl e), w')"
    and "rows \<noteq> 0"
  shows "\<exists>m\<in>set ms. \<exists>wa wb. check_nullable_constraints be dbn tbl (field_name m) wa = (Inl e, wb)"
  using assms
proof (induction ms arbitrary: entries scores w)
  case Nil
  then show ?case by simp
next
  case (Cons m ms)
  obtain res w1 where c: "check_nullable_constraints be dbn tbl (field_name m) w = (res, w1)"
    by (cases "check_nullable_constraints be dbn tbl (field_name m) w")
  show ?case
  proof (cases res)
    case (Inl x)
    with Cons.prems c have "x = e" by simp
    with Inl c show ?thesis by auto
  next
    case (Inr p)
    obtain an nulls where p: "p = (an, nulls)" by (cases p)
    from Cons.prems c Inr p obtain en sc where
      "completeness_columns be dbn tbl rows ms en sc w1 = ((entries', Inl e), w')"
      by (simp add: py_truediv_nonzero Let_def)
    from Cons.IH [OF this \<open>rows \<noteq> 0\<close>] show ?thesis by auto
  qed
qed


lemma validate_completeness_checks_results:
  "\<exists>rs w'. validate_completeness_checks str_float be metadata sel w = (Inr rs, w')
     \<and> list_all2 (\<lambda>g r. \<exists>dbn tbl m0 w0. group_header g = Inr (dbn, tbl, m0)
                     \<and> r = fst (completeness_table str_float be dbn tbl m0 g w0))
         (table_groups (filter_feeds sel metadata)) rs"
  unfolding validate_completeness_checks_def by (rule group_validator_results)







lemma completeness_table_empty:
  assumes "get_row_count be dbn tbl None w0 = (Inr 0, w1)"
  shows "completeness_table str_float be dbn tbl m0 g w0
           = (\<lparr>validation_type = ''completeness_check'', res_db_name = dbn,
               table_name = tbl, feed_name = feed m0, validation_status = FAIL,
               error_message = Some ''Table is empty - cannot check completeness'',
               total_rows = 0, column_completeness = [],
               overall_completeness_score = 0\<rparr>, w1)"
  using assms by (simp add: completeness_table_def set_fail_def)

text \<open>
  C10. The completeness validator returns normally with one result per group. For a group
  whose row count is 0 the result is the FAIL record with the message
  \<open>Table is empty - cannot check completeness\<close> and no column entry, and the state of the
  outside world is the one right after the count query: the loop over the columns is not
  run. The loop runs only with a row count other than 0; there the division yields a value,
  and an exception that leaves the loop is one that the connector raised.
\<close>

theorem completeness_empty_table_no_division:
  "\<exists>rs w'. validate_completeness_checks str_float be metadata sel w = (Inr rs, w')
     \<and> list_all2
     (\<lambda>g r. \<exists>dbn tbl m0 w0. group_header g = Inr (dbn, tbl, m0)
        \<and> r = fst (completeness_table str_float be dbn tbl m0 g w0)
        \<and> ((\<forall>w1. get_row_count be dbn tbl None w0 = (Inr 0, w1) \<longrightarrow>
               completeness_table str_float be dbn tbl m0 g w0
                 = (\<lparr>validation_type = ''completeness_check'', res_db_name = dbn,
                     table_name = tbl, feed_name = feed m0, validation_status = FAIL,
                     error_message = Some ''Table is empty - cannot check completeness'',
                     total_rows = 0, column_completeness = [],
                     overall_completeness_score = 0\<rparr>, w1))
           \<and> (\<forall>rows w1. get_row_count be dbn tbl None w0 = (Inr rows, w1) \<and> rows \<noteq> 0 \<longrightarrow>
                 (\<forall>nulls. py_truediv (rows - nulls) rows
                             = Inr (of_int (rows - nulls) / of_int rows))
                 \<and> (\<forall>entries e w2.
                       completeness_columns be dbn tbl rows (snd g) [] [] w1
                         = ((entries, Inl e), w2) \<longrightarrow>
                       (\<exists>m\<in>set (snd g). \<exists>wa wb.
                          check_nullable_constraints be dbn tbl (field_name m) wa = (Inl e, wb))))))
     (table_groups (filter_feeds sel metadata)) rs"
proof -
  obtain rs w' where v: "validate_completeness_checks str_float be metadata sel w = (Inr rs, w')"
    and a: "list_all2 (\<lambda>g r. \<exists>dbn tbl m0 w0. group_header g = Inr (dbn, tbl, m0)
                \<and> r = fst (completeness_table str_float be dbn tbl m0 g w0))
              (table_groups (filter_feeds sel metadata)) rs"
    using validate_completeness_checks_results
            [where str_float = str_float and be = be and metadata = metadata and sel = sel
               and w = w]
    by blast
  have "list_all2
     (\<lambda>g r. \<exists>dbn tbl m0 w0. group_header g = Inr (dbn, tbl, m0)
        \<and> r = fst (completeness_table str_float be dbn tbl m0 g w0)
        \<and> ((\<forall>w1. get_row_count be dbn tbl None w0 = (Inr 0, w1) \<longrightarrow>
               completeness_table str_float be dbn tbl m0 g w0
                 = (\<lparr>validation_type = ''completeness_check'', res_db_name = dbn,
                     table_name = tbl, feed_name = feed m0, validation_status = FAIL,
                     error_message = Some ''Table is empty - cannot check completeness'',
                     total_rows = 0, column_completeness = [],
                     overall_completeness_score = 0\<rparr>, w1))
           \<and> (\<forall>rows w1. get_row_count be dbn tbl None w0 = (Inr rows, w1) \<and> rows \<noteq> 0 \<longrightarrow>
                 (\<forall>nulls. py_truediv (rows - nulls) rows
                             = Inr (of_int (rows - nulls) / of_int rows))
                 \<and> (\<forall>entries e w2.
                       completeness_columns be dbn tbl rows (snd g) [] [] w1
                         = ((entries, Inl e), w2) \<longrightarrow>
                       (\<exists>m\<in>set (snd g). \<exists>wa wb.
                          check_nullable_constraints be dbn tbl (field_name m) wa = (Inl e, wb))))))
     (table_groups (filter_feeds sel metadata)) rs"
  proof (rule list_all2_mono [OF a])
    fix g r
    assume "\<exists>dbn tbl m0 w0. group_header g = Inr (dbn, tbl, m0)
              \<and> r = fst (completeness_table str_float be dbn tbl m0 g w0)"
    then obtain dbn tbl m0 w0 where h: "group_header g = Inr (dbn, tbl, m0)"
      and r: "r = fst (completeness_table str_float be dbn tbl m0 g w0)"
      by blast
    have "(\<forall>w1. get_row_count be dbn tbl None w0 = (Inr 0, w1) \<longrightarrow>
               completeness_table str_float be dbn tbl m0 g w0
                 = (\<lparr>validation_type = ''completeness_check'', res_db_name = dbn,
                     table_name = tbl, feed_name = feed m0, validation_status = FAIL,
                     error_message = Some ''Table is empty - cannot check completeness'',
                     total_rows = 0, column_completeness = [],
                     overall_completeness_score = 0\<rparr>, w1))
           \<and> (\<forall>rows w1. get_row_count be dbn tbl None w0 = (Inr rows, w1) \<and> rows \<noteq> 0 \<longrightarrow>
                 (\<forall>nulls. py_truediv (rows - nulls) rows
                             = Inr (of_int (rows - nulls) / of_int rows))
                 \<and> (\<forall>entries e w2.
                       completeness_columns be dbn tbl rows (snd g) [] [] w1
                         = ((entries, Inl e), w2) \<longrightarrow>
                       (\<exists>m\<in>set (snd g). \<exists>wa wb.
                          check_nullable_constraints be dbn tbl (field_name m) wa = (Inl e, wb))))"
      using completeness_table_empty [of be dbn tbl w0] completeness_columns_failure [of be dbn tbl]
      by (auto simp: py_truediv_nonzero)
    with h r show "\<exists>dbn tbl m0 w0. group_header g = Inr (dbn, tbl, m0)
        \<and> r = fst (completeness_table str_float be dbn tbl m0 g w0)
        \<and> ((\<forall>w1. get_row_count be dbn tbl None w0 = (Inr 0, w1) \<longrightarrow>
               completeness_table str_float be dbn tbl m0 g w0
                 = (\<lparr>validation_type = ''completeness_check'', res_db_name = dbn,
                     table_name = tbl, feed_name = feed m0, validation_status = FAIL,
                     error_message = Some ''Table is empty - cannot check completeness'',
                     total_rows = 0, column_completeness = [],
                     overall_completeness_score = 0\<rparr>, w1))
           \<and> (\<forall>rows w1. get_row_count be dbn tbl None w0 = (Inr rows, w1) \<and> rows \<noteq> 0 \<longrightarrow>
                 (\<forall>nulls. py_truediv (rows - nulls) rows
                             = Inr (of_int (rows - nulls) / of_int rows))
                 \<and> (\<forall>entries e w2.
                       completeness_columns be dbn tbl rows (snd g) [] [] w1
                         = ((entries, Inl e), w2) \<longrightarrow>
                       (\<exists>m\<in>set (snd g). \<exists>wa wb.
                          check_nullable_constraints be dbn tbl (field_name m) wa = (Inl e, wb)))))"
      by blast
  qed
  with v show ?thesis by blast
qed

theorem completeness_empty_table_no_division_witness:
  "get_row_count empty_table_backend ''server1_db'' ''customers'' None 0 = (Inr 0, 1)
   \<and> validate_completeness_checks (\<lambda>x. []) empty_table_backend [customer_id] None 0
       = (Inr [\<lparr>validation_type = ''completeness_check'', res_db_name = ''server1_db'',
                 table_name = ''customers'', feed_name = ''customers'', validation_status = FAIL,
                 error_message = Some ''Table is empty - cannot check completeness'',
                 total_rows = 0, column_completeness = [],
                 overall_completeness_score = 0\<rparr>], 1)
   \<and> (\<exists>rs w'. validate_completeness_checks (\<lambda>x. []) empty_table_backend [customer_id] None 0
                  = (Inr rs, w')
     \<and> list_all2
     (\<lambda>g r. \<exists>dbn tbl m0 w0. group_header g = Inr (dbn, tbl, m0)
        \<and> r = fst (completeness_table (\<lambda>x. []) empty_table_backend dbn tbl m0 g w0)
        \<and> ((\<forall>w1. get_row_count empty_table_backend dbn tbl None w0 = (Inr 0, w1) \<longrightarrow>
               completeness_table (\<lambda>x. []) empty_table_backend dbn tbl m0 g w0
                 = (\<lparr>validation_type = ''completeness_check'', res_db_name = dbn,
                     table_name = tbl, feed_name = feed m0, validation_status = FAIL,
                     error_message = Some ''Table is empty - cannot check completeness'',
                     total_rows = 0, column_completeness = [],
                     overall_completeness_score = 0\<rparr>, w1))
           \<and> (\<forall>rows w1. get_row_count empty_table_backend dbn tbl None w0 = (Inr rows, w1) \<and> rows \<noteq> 0 \<longrightarrow>
                 (\<forall>nulls. py_truediv (rows - nulls) rows
                             = Inr (of_int (rows - nulls) / of_int rows))
                 \<and> (\<forall>entries e w2.
                       completeness_columns empty_table_backend dbn tbl rows (snd g) [] [] w1
                         = ((entries, Inl e), w2) \<longrightarrow>
                       (\<exists>m\<in>set (snd g). \<exists>wa wb.
                          check_nullable_constraints empty_table_backend dbn tbl (field_name m) wa = (Inl e, wb))))))
     (table_groups (filter_feeds None [customer_id])) rs)"
proof -
  have "get_row_count empty_table_backend ''server1_db'' ''customers'' None 0 = (Inr 0, 1)
   \<and> validate_completeness_checks (\<lambda>x. []) empty_table_backend [customer_id] None 0
       = (Inr [\<lparr>validation_type = ''completeness_check'', res_db_name = ''server1_db'',
                 table_name = ''customers'', feed_name = ''customers'', validation_status = FAIL,
                 error_message = Some ''Table is empty - cannot check completeness'',
                 total_rows = 0, column_completeness = [],
                 overall_completeness_score = 0\<rparr>], 1)"
    by code_simp
  then show ?thesis
    using completeness_empty_table_no_division
            [of "\<lambda>x. []" empty_table_backend "[customer_id]" None 0]
    by blast
qed

subsection \<open>Data types\<close>

lemma dict_set_absent:
  "k \<notin> fst ` set d \<Longrightarrow> dict_set d k v = d @ [(k, v)]"
  by (induction d k v rule: dict_set.induct) auto

lemma type_check_column_matches:
  "type_check_column expected_schema validation_results c =
     dict_set validation_results (col_name c) (column_matches expected_schema c)"
  by (simp add: type_check_column_def column_matches_def Let_def split: option.splits)

lemma foldl_type_check_column:
  assumes "distinct (map col_name cs)"
    and "set (map col_name cs) \<inter> fst ` set acc = {}"
  shows "foldl (type_check_column expected_schema) acc cs =
           acc @ map (\<lambda>c. (col_name c, column_matches expected_schema c)) cs"
  using assms
proof (induction cs arbitrary: acc)
  case Nil
  then show ?case by simp
next
  case (Cons c cs)
  from Cons.prems have a: "col_name c \<notin> fst ` set acc" by auto
  have s: "type_check_column expected_schema acc c
             = acc @ [(col_name c, column_matches expected_schema c)]"
    by (simp add: type_check_column_matches dict_set_absent [OF a])
  from Cons.prems have d: "distinct (map col_name cs)" by simp
  from Cons.prems have
    "set (map col_name cs) \<inter> fst ` set (acc @ [(col_name c, column_matches expected_schema c)]) = {}"
    by auto
  from Cons.IH [OF d this] s show ?case by simp
qed

lemma foldl_process_column:
  "column_validations (foldl (process_column table_metadata) result items) =
     column_validations result
       @ map (\<lambda>item. \<lparr>cv_column_name = fst item,
                        expected_type =
                          (case find (\<lambda>m. field_name m = fst item) table_metadata of
                             Some m \<Rightarrow> data_type m
                           | None \<Rightarrow> ''Unknown''),
                        validation_passed = snd item,
                        cv_error_message =
                          (if snd item then None
                           else Some (''Data type mismatch for column '' @ fst item))\<rparr>) items
   \<and> validation_status (foldl (process_column table_metadata) result items) =
       (if \<exists>item\<in>set items. \<not> snd item then FAIL else validation_status result)"
proof (induction items arbitrary: result)
  case Nil
  then show ?case by simp
next
  case (Cons item items)
  have "column_validations (process_column table_metadata result item) =
          column_validations result
            @ [\<lparr>cv_column_name = fst item,
                expected_type =
                  (case find (\<lambda>m. field_name m = fst item) table_metadata of
                     Some m \<Rightarrow> data_type m
                   | None \<Rightarrow> ''Unknown''),
                validation_passed = snd item,
                cv_error_message =
                  (if snd item then None
                   else Some (''Data type mismatch for column '' @ fst item))\<rparr>]"
    and "validation_status (process_column table_metadata result item) =
           (if \<not> snd item then FAIL else validation_status result)"
    by (simp_all add: process_column_def Let_def)
  with Cons.IH [of "process_column table_metadata result item"] show ?case
    by auto
qed

lemma find_append_cases:
  "find P (xs @ ys) = (case find P xs of None \<Rightarrow> find P ys | Some x \<Rightarrow> Some x)"
  by (induction xs) simp_all

lemma expected_schema_of_last:
  "expected_schema_of table_metadata n =
     map_option data_type (find (\<lambda>m. field_name m = n) (rev table_metadata))"
proof -
  have "foldl (\<lambda>expected_schema meta. expected_schema(field_name meta \<mapsto> data_type meta)) e ms n =
          (case find (\<lambda>m. field_name m = n) (rev ms) of None \<Rightarrow> e n | Some m \<Rightarrow> Some (data_type m))"
    for e :: "string \<rightharpoonup> string" and ms :: "feed_metadata list"
  proof (induction ms arbitrary: e)
    case Nil
    then show ?case by simp
  next
    case (Cons m ms)
    show ?case
      using Cons.IH [of "e(field_name m \<mapsto> data_type m)"]
      by (simp add: find_append_cases split: option.splits)
  qed
  then show ?thesis
    by (simp add: expected_schema_of_def split: option.splits)
qed

lemma data_type_table_success:
  assumes "get_table_schema be dbn tbl w0 = (Inr s1, w1)"
    and "get_table_schema be dbn tbl w1 = (Inr s2, w2)"
    and "distinct (map col_name (columns s2))"
  shows "column_validations (fst (data_type_table be dbn tbl m0 g w0)) =
           map (\<lambda>c. \<lparr>cv_column_name = col_name c,
                      expected_type =
                        (case find (\<lambda>m. field_name m = col_name c) (snd g) of
                           Some m \<Rightarrow> data_type m
                         | None \<Rightarrow> ''Unknown''),
                      validation_passed = column_matches (expected_schema_of (snd g)) c,
                      cv_error_message =
                        (if column_matches (expected_schema_of (snd g)) c then None
                         else Some (''Data type mismatch for column '' @ col_name c))\<rparr>)
             (columns s2)"
    and "validation_status (fst (data_type_table be dbn tbl m0 g w0)) =
           (if \<exists>c\<in>set (columns s2). \<not> column_matches (expected_schema_of (snd g)) c
            then FAIL else PASS)"
proof -
  let ?items = "map (\<lambda>c. (col_name c, column_matches (expected_schema_of (snd g)) c)) (columns s2)"
  have c: "connector_validate_data_types be dbn tbl (expected_schema_of (snd g)) w1
             = (Inr ?items, w2)"
    using assms(2) foldl_type_check_column [OF assms(3), of "[]" "expected_schema_of (snd g)"]
    by (simp add: connector_validate_data_types_def)
  let ?result = "\<lparr>validation_type = ''data_type'', res_db_name = dbn, table_name = tbl,
                   feed_name = feed m0, validation_status = PASS, error_message = None,
                   column_validations = []\<rparr>"
  have t: "fst (data_type_table be dbn tbl m0 g w0) = foldl (process_column (snd g)) ?result ?items"
    using assms(1) c by (simp add: data_type_table_def)
  show "column_validations (fst (data_type_table be dbn tbl m0 g w0)) =
           map (\<lambda>c. \<lparr>cv_column_name = col_name c,
                      expected_type =
                        (case find (\<lambda>m. field_name m = col_name c) (snd g) of
                           Some m \<Rightarrow> data_type m
                         | None \<Rightarrow> ''Unknown''),
                      validation_passed = column_matches (expected_schema_of (snd g)) c,
                      cv_error_message =
                        (if column_matches (expected_schema_of (snd g)) c then None
                         else Some (''Data type mismatch for column '' @ col_name c))\<rparr>)
             (columns s2)"
    unfolding t by (simp add: foldl_process_column comp_def)
  show "validation_status (fst (data_type_table be dbn tbl m0 g w0)) =
           (if \<exists>c\<in>set (columns s2). \<not> column_matches (expected_schema_of (snd g)) c
            then FAIL else PASS)"
    unfolding t by (simp add: foldl_process_column)
qed

lemma validate_data_types_results:
  "\<exists>rs w'. validate_data_types be metadata sel w = (Inr rs, w')
     \<and> list_all2 (\<lambda>g r. \<exists>dbn tbl m0 w0. group_header g = Inr (dbn, tbl, m0)
                     \<and> r = fst (data_type_table be dbn tbl m0 g w0))
         (table_groups (filter_feeds sel metadata)) rs"
  unfolding validate_data_types_def by (rule group_validator_results)

text \<open>
  C1, as the code has it. The validator returns normally with one result per group of the
  selected metadata, in order. When both reads of the table's schema succeed (the
  validator's and the connector's) and the column names of the schema are distinct, the
  result lists every column of the actual schema with its verdict, the status is FAIL
  exactly when some column of the actual schema is undeclared in the group or
  type-incompatible with its declared type, and PASS exactly when every column of the
  actual schema is declared and compatible. The verdicts are about the columns of the
  actual schema only.
\<close>

theorem data_type_status_by_actual_columns:
  "\<exists>rs w'. validate_data_types be metadata sel w = (Inr rs, w')
     \<and> list_all2
     (\<lambda>g r. \<exists>dbn tbl m0 w0. group_header g = Inr (dbn, tbl, m0)
        \<and> r = fst (data_type_table be dbn tbl m0 g w0)
        \<and> (\<forall>s1 w1 s2 w2.
               get_table_schema be dbn tbl w0 = (Inr s1, w1)
               \<and> get_table_schema be dbn tbl w1 = (Inr s2, w2)
               \<and> distinct (map col_name (columns s2)) \<longrightarrow>
               column_validations r =
                 map (\<lambda>c. \<lparr>cv_column_name = col_name c,
                            expected_type =
                              (case find (\<lambda>m. field_name m = col_name c) (snd g) of
                                 Some m \<Rightarrow> data_type m
                               | None \<Rightarrow> ''Unknown''),
                            validation_passed = column_matches (expected_schema_of (snd g)) c,
                            cv_error_message =
                              (if column_matches (expected_schema_of (snd g)) c then None
                               else Some (''Data type mismatch for column '' @ col_name c))\<rparr>)
                   (columns s2)
               \<and> (validation_status r = FAIL \<longleftrightarrow>
                      (\<exists>c\<in>set (columns s2). \<not> column_matches (expected_schema_of (snd g)) c))
               \<and> (validation_status r = PASS \<longleftrightarrow>
                      (\<forall>c\<in>set (columns s2). column_matches (expected_schema_of (snd g)) c))))
     (table_groups (filter_feeds sel metadata)) rs"
proof -
  obtain rs w' where v: "validate_data_types be metadata sel w = (Inr rs, w')"
    and a: "list_all2 (\<lambda>g r. \<exists>dbn tbl m0 w0. group_header g = Inr (dbn, tbl, m0)
                \<and> r = fst (data_type_table be dbn tbl m0 g w0))
              (table_groups (filter_feeds sel metadata)) rs"
    using validate_data_types_results [where be = be and metadata = metadata and sel = sel and w = w]
    by blast
  have "list_all2
     (\<lambda>g r. \<exists>dbn tbl m0 w0. group_header g = Inr (dbn, tbl, m0)
        \<and> r = fst (data_type_table be dbn tbl m0 g w0)
        \<and> (\<forall>s1 w1 s2 w2.
               get_table_schema be dbn tbl w0 = (Inr s1, w1)
               \<and> get_table_schema be dbn tbl w1 = (Inr s2, w2)
               \<and> distinct (map col_name (columns s2)) \<longrightarrow>
               column_validations r =
                 map (\<lambda>c. \<lparr>cv_column_name = col_name c,
                            expected_type =
                              (case find (\<lambda>m. field_name m = col_name c) (snd g) of
                                 Some m \<Rightarrow> data_type m
                               | None \<Rightarrow> ''Unknown''),
                            validation_passed = column_matches (expected_schema_of (snd g)) c,
                            cv_error_message =
                              (if column_matches (expected_schema_of (snd g)) c then None
                               else Some (''Data type mismatch for column '' @ col_name c))\<rparr>)
                   (columns s2)
               \<and> (validation_status r = FAIL \<longleftrightarrow>
                      (\<exists>c\<in>set (columns s2). \<not> column_matches (expected_schema_of (snd g)) c))
               \<and> (validation_status r = PASS \<longleftrightarrow>
                      (\<forall>c\<in>set (columns s2). column_matches (expected_schema_of (snd g)) c))))
     (table_groups (filter_feeds sel metadata)) rs"
  proof (rule list_all2_mono [OF a])
    fix g r
    assume "\<exists>dbn tbl m0 w0. group_header g = Inr (dbn, tbl, m0)
              \<and> r = fst (data_type_table be dbn tbl m0 g w0)"
    then obtain dbn tbl m0 w0 where h: "group_header g = Inr (dbn, tbl, m0)"
      and r: "r = fst (data_type_table be dbn tbl m0 g w0)"
      by blast
    have "\<forall>s1 w1 s2 w2.
               get_table_schema be dbn tbl w0 = (Inr s1, w1)
               \<and> get_table_schema be dbn tbl w1 = (Inr s2, w2)
               \<and> distinct (map col_name (columns s2)) \<longrightarrow>
               column_validations r =
                 map (\<lambda>c. \<lparr>cv_column_name = col_name c,
                            expected_type =
                              (case find (\<lambda>m. field_name m = col_name c) (snd g) of
                                 Some m \<Rightarrow> data_type m
                               | None \<Rightarrow> ''Unknown''),
                            validation_passed = column_matches (expected_schema_of (snd g)) c,
                            cv_error_message =
                              (if column_matches (expected_schema_of (snd g)) c then None
                               else Some (''Data type mismatch for column '' @ col_name c))\<rparr>)
                   (columns s2)
               \<and> (validation_status r = FAIL \<longleftrightarrow>
                      (\<exists>c\<in>set (columns s2). \<not> column_matches (expected_schema_of (snd g)) c))
               \<and> (validation_status r = PASS \<longleftrightarrow>
                      (\<forall>c\<in>set (columns s2). column_matches (expected_schema_of (snd g)) c))"
      using data_type_table_success [where be = be and dbn = dbn and tbl = tbl and ?w0.0 = w0
                                        and ?m0.0 = m0 and g = g] r
      by auto
    with h r show "\<exists>dbn tbl m0 w0. group_header g = Inr (dbn, tbl, m0)
        \<and> r = fst (data_type_table be dbn tbl m0 g w0)
        \<and> (\<forall>s1 w1 s2 w2.
               get_table_schema be dbn tbl w0 = (Inr s1, w1)
               \<and> get_table_schema be dbn tbl w1 = (Inr s2, w2)
               \<and> distinct (map col_name (columns s2)) \<longrightarrow>
               column_validations r =
                 map (\<lambda>c. \<lparr>cv_column_name = col_name c,
                            expected_type =
                              (case find (\<lambda>m. field_name m = col_name c) (snd g) of
                                 Some m \<Rightarrow> data_type m
                               | None \<Rightarrow> ''Unknown''),
                            validation_passed = column_matches (expected_schema_of (snd g)) c,
                            cv_error_message =
                              (if column_matches (expected_schema_of (snd g)) c then None
                               else Some (''Data type mismatch for column '' @ col_name c))\<rparr>)
                   (columns s2)
               \<and> (validation_status r = FAIL \<longleftrightarrow>
                      (\<exists>c\<in>set (columns s2). \<not> column_matches (expected_schema_of (snd g)) c))
               \<and> (validation_status r = PASS \<longleftrightarrow>
                      (\<forall>c\<in>set (columns s2). column_matches (expected_schema_of (snd g)) c)))"
      by blast
  qed
  with v show ?thesis by blast
qed

theorem data_type_status_by_actual_columns_witness:
  "get_table_schema duplicates_backend ''server1_db'' ''customers'' 0
     = (Inr \<lparr>columns = [\<lparr>col_name = ''customer_id'', col_type = ''INTEGER'',
                           col_nullable = False\<rparr>],
              primary_keys = [''customer_id'']\<rparr>, 1)
   \<and> get_table_schema duplicates_backend ''server1_db'' ''customers'' 1
     = (Inr \<lparr>columns = [\<lparr>col_name = ''customer_id'', col_type = ''INTEGER'',
                           col_nullable = False\<rparr>],
              primary_keys = [''customer_id'']\<rparr>, 2)
   \<and> distinct (map col_name [\<lparr>col_name = ''customer_id'', col_type = ''INTEGER'',
                              col_nullable = False\<rparr>])
   \<and> map_sum id (map validation_status)
        (fst (validate_data_types duplicates_backend [customer_id] None 0)) = Inr [PASS]
   \<and> (\<exists>rs w'. validate_data_types duplicates_backend [customer_id] None 0 = (Inr rs, w')
     \<and> list_all2
     (\<lambda>g r. \<exists>dbn tbl m0 w0. group_header g = Inr (dbn, tbl, m0)
        \<and> r = fst (data_type_table duplicates_backend dbn tbl m0 g w0)
        \<and> (\<forall>s1 w1 s2 w2.
               get_table_schema duplicates_backend dbn tbl w0 = (Inr s1, w1)
               \<and> get_table_schema duplicates_backend dbn tbl w1 = (Inr s2, w2)
               \<and> distinct (map col_name (columns s2)) \<longrightarrow>
               column_validations r =
                 map (\<lambda>c. \<lparr>cv_column_name = col_name c,
                            expected_type =
                              (case find (\<lambda>m. field_name m = col_name c) (snd g) of
                                 Some m \<Rightarrow> data_type m
                               | None \<Rightarrow> ''Unknown''),
                            validation_passed = column_matches (expected_schema_of (snd g)) c,
                            cv_error_message =
                              (if column_matches (expected_schema_of (snd g)) c then None
                               else Some (''Data type mismatch for column '' @ col_name c))\<rparr>)
                   (columns s2)
               \<and> (validation_status r = FAIL \<longleftrightarrow>
                      (\<exists>c\<in>set (columns s2). \<not> column_matches (expected_schema_of (snd g)) c))
               \<and> (validation_status r = PASS \<longleftrightarrow>
                      (\<forall>c\<in>set (columns s2). column_matches (expected_schema_of (snd g)) c))))
     (table_groups (filter_feeds None [customer_id])) rs)"
proof -
  have "get_table_schema duplicates_backend ''server1_db'' ''customers'' 0
     = (Inr \<lparr>columns = [\<lparr>col_name = ''customer_id'', col_type = ''INTEGER'',
                           col_nullable = False\<rparr>],
              primary_keys = [''customer_id'']\<rparr>, 1)
   \<and> get_table_schema duplicates_backend ''server1_db'' ''customers'' 1
     = (Inr \<lparr>columns = [\<lparr>col_name = ''customer_id'', col_type = ''INTEGER'',
                           col_nullable = False\<rparr>],
              primary_keys = [''customer_id'']\<rparr>, 2)
   \<and> distinct (map col_name [\<lparr>col_name = ''customer_id'', col_type = ''INTEGER'',
                              col_nullable = False\<rparr>])
   \<and> map_sum id (map validation_status)
        (fst (validate_data_types duplicates_backend [customer_id] None 0)) = Inr [PASS]"
    by code_simp
  then show ?thesis
    using data_type_status_by_actual_columns [of duplicates_backend "[customer_id]" None 0]
    by blast
qed

text \<open>
  The group declares the columns \<open>customer_id\<close> and \<open>status\<close>; the table has the single
  column \<open>customer_id\<close>. The declared column \<open>status\<close> is missing from the actual schema,
  the status is PASS, and the result lists \<open>customer_id\<close> only.
\<close>

theorem data_type_status_by_actual_columns_counterexample:
  "map table_key [customer_id, customer_status] = [''server1_db.customers'', ''server1_db.customers'']
   \<and> map field_name [customer_id, customer_status] = [''customer_id'', ''status'']
   \<and> map_sum id (map col_name \<circ> columns)
        (fst (get_table_schema duplicates_backend ''server1_db'' ''customers'' 0))
       = Inr [''customer_id'']
   \<and> map_sum id (map validation_status)
        (fst (validate_data_types duplicates_backend [customer_id, customer_status] None 0))
       = Inr [PASS]
   \<and> map_sum id (map (map cv_column_name \<circ> column_validations))
        (fst (validate_data_types duplicates_backend [customer_id, customer_status] None 0))
       = Inr [[''customer_id'']]"
  by code_simp

subsection \<open>Isolation of errors\<close>

lemma nullable_unit_error:
  "r = fst (nullable_column be meta w0) \<Longrightarrow>
   (\<forall>e w1. check_nullable_constraints be (db_name meta) (db_table meta) (field_name meta) w0
                     = (Inl e, w1) \<longrightarrow>
                   reports_error ''Error validating nullable constraints: '' e r)"
  by (auto simp: nullable_column_def reports_error_def set_error_def Let_def)

lemma unique_unit_error:
  "r = fst (unique_column be meta w0) \<Longrightarrow>
   (\<forall>e w1. check_unique_constraints be (db_name meta) (db_table meta) (field_name meta) w0
                     = (Inl e, w1) \<longrightarrow>
                   reports_error ''Error validating unique constraints: '' e r)"
  by (auto simp: unique_column_def reports_error_def set_error_def Let_def)

lemma range_unit_error:
  "r = fst (range_column be meta w0) \<Longrightarrow>
   (\<forall>e w1. check_range_constraints be (db_name meta) (db_table meta) (field_name meta)
                       (range_bottom meta) (range_top meta) w0 = (Inl e, w1) \<longrightarrow>
                   reports_error ''Error validating range constraints: '' e r)"
  by (auto simp: range_column_def reports_error_def set_error_def Let_def)

lemma enumeration_unit_error:
  "r = fst (enumeration_column be (enum_lookup_of enumeration_metadata) meta w0) \<Longrightarrow>
   (\<forall>e w1. enum_lookup_get (enum_lookup_of enumeration_metadata) (enumeration meta) \<noteq> []
                     \<and> check_enumeration_constraints be (db_name meta) (db_table meta)
                           (field_name meta)
                           (enum_lookup_get (enum_lookup_of enumeration_metadata) (enumeration meta))
                           w0 = (Inl e, w1) \<longrightarrow>
                   reports_error ''Error validating enumeration constraints: '' e r)"
  by (auto simp: enumeration_column_def reports_error_def set_error_def Let_def)

lemma data_type_unit_error:
  "r = fst (data_type_table be dbn tbl m0 g w0) \<Longrightarrow>
   (\<forall>e w1. get_table_schema be dbn tbl w0 = (Inl e, w1) \<longrightarrow> reports_error ''Error validating data types: '' e r)
              \<and> (\<forall>s1 w1 e w2.
                    get_table_schema be dbn tbl w0 = (Inr s1, w1)
                    \<and> connector_validate_data_types be dbn tbl (expected_schema_of (snd g)) w1
                         = (Inl e, w2) \<longrightarrow>
                    reports_error ''Error validating data types: '' e r)"
  by (auto simp: data_type_table_def reports_error_def set_error_def Let_def)

lemma insert_append_unit_error:
  "r = fst (insert_append_table be dbn tbl m0 g w0) \<Longrightarrow>
   (\<forall>e w1. get_row_count be dbn tbl None w0 = (Inl e, w1) \<longrightarrow> reports_error ''Error validating insert/append logic: '' e r)"
  by (auto simp: insert_append_table_def reports_error_def set_error_def Let_def)

lemma count_unit_error:
  "r = fst (count_table be expected_counts dbn tbl m0 g w0) \<Longrightarrow>
   (\<forall>e w1. get_row_count be dbn tbl None w0 = (Inl e, w1) \<longrightarrow> reports_error ''Error validating count checks: '' e r)"
  by (auto simp: count_table_def reports_error_def set_error_def Let_def)

lemma completeness_unit_error:
  "r = fst (completeness_table str_float be dbn tbl m0 g w0) \<Longrightarrow>
   (\<forall>e w1. get_row_count be dbn tbl None w0 = (Inl e, w1) \<longrightarrow> reports_error ''Error validating completeness checks: '' e r)
              \<and> (\<forall>rows w1 entries e w2.
                    get_row_count be dbn tbl None w0 = (Inr rows, w1) \<and> rows \<noteq> 0
                    \<and> completeness_columns be dbn tbl rows (snd g) [] [] w1
                         = ((entries, Inl e), w2) \<longrightarrow>
                    reports_error ''Error validating completeness checks: '' e r)"
  by (auto simp: completeness_table_def reports_error_def set_error_def Let_def)

lemma nullable_error_isolation:
  "list_all2
       (\<lambda>meta r. \<exists>w0. r = fst (nullable_column be meta w0)
          \<and> (\<forall>e w1. check_nullable_constraints be (db_name meta) (db_table meta) (field_name meta) w0
                     = (Inl e, w1) \<longrightarrow>
                   reports_error ''Error validating nullable constraints: '' e r))
       (filter_feeds sel metadata)
       (fst (validate_nullable_constraints be metadata sel w))"
proof -
  have a: "list_all2 (\<lambda>meta r. \<exists>w0. r = fst (nullable_column be meta w0))
             (filter_feeds sel metadata)
             (fst (validate_nullable_constraints be metadata sel w))"
    unfolding validate_nullable_constraints_def Let_def by (rule for_each_column_all2)
  show ?thesis
  proof (rule list_all2_mono [OF a])
    fix meta r
    assume "\<exists>w0. r = fst (nullable_column be meta w0)"
    then obtain w0 where r: "r = fst (nullable_column be meta w0)" by blast
    from nullable_unit_error [OF r] r
    show "\<exists>w0. r = fst (nullable_column be meta w0)
          \<and> (\<forall>e w1. check_nullable_constraints be (db_name meta) (db_table meta) (field_name meta) w0
                     = (Inl e, w1) \<longrightarrow>
                   reports_error ''Error validating nullable constraints: '' e r)"
      by blast
  qed
qed

lemma unique_error_isolation:
  "list_all2
       (\<lambda>meta r. \<exists>w0. r = fst (unique_column be meta w0)
          \<and> (\<forall>e w1. check_unique_constraints be (db_name meta) (db_table meta) (field_name meta) w0
                     = (Inl e, w1) \<longrightarrow>
                   reports_error ''Error validating unique constraints: '' e r))
       (filter (\<lambda>meta. upper (unique meta) = ''Y'') (filter_feeds sel metadata))
       (fst (validate_unique_constraints be metadata sel w))"
proof -
  have a: "list_all2 (\<lambda>meta r. \<exists>w0. r = fst (unique_column be meta w0))
             (filter (\<lambda>meta. upper (unique meta) = ''Y'') (filter_feeds sel metadata))
             (fst (validate_unique_constraints be metadata sel w))"
    unfolding validate_unique_constraints_def Let_def by (rule for_each_column_all2)
  show ?thesis
  proof (rule list_all2_mono [OF a])
    fix meta r
    assume "\<exists>w0. r = fst (unique_column be meta w0)"
    then obtain w0 where r: "r = fst (unique_column be meta w0)" by blast
    from unique_unit_error [OF r] r
    show "\<exists>w0. r = fst (unique_column be meta w0)
          \<and> (\<forall>e w1. check_unique_constraints be (db_name meta) (db_table meta) (field_name meta) w0
                     = (Inl e, w1) \<longrightarrow>
                   reports_error ''Error validating unique constraints: '' e r)"
      by blast
  qed
qed

lemma range_error_isolation:
  "list_all2
       (\<lambda>meta r. \<exists>w0. r = fst (range_column be meta w0)
          \<and> (\<forall>e w1. check_range_constraints be (db_name meta) (db_table meta) (field_name meta)
                       (range_bottom meta) (range_top meta) w0 = (Inl e, w1) \<longrightarrow>
                   reports_error ''Error validating range constraints: '' e r))
       (filter (\<lambda>meta. truthy (range_bottom meta) \<or> truthy (range_top meta)) (filter_feeds sel metadata))
       (fst (validate_range_constraints be metadata sel w))"
proof -
  have a: "list_all2 (\<lambda>meta r. \<exists>w0. r = fst (range_column be meta w0))
             (filter (\<lambda>meta. truthy (range_bottom meta) \<or> truthy (range_top meta)) (filter_feeds sel metadata))
             (fst (validate_range_constraints be metadata sel w))"
    unfolding validate_range_constraints_def Let_def by (rule for_each_column_all2)
  show ?thesis
  proof (rule list_all2_mono [OF a])
    fix meta r
    assume "\<exists>w0. r = fst (range_column be meta w0)"
    then obtain w0 where r: "r = fst (range_column be meta w0)" by blast
    from range_unit_error [OF r] r
    show "\<exists>w0. r = fst (range_column be meta w0)
          \<and> (\<forall>e w1. check_range_constraints be (db_name meta) (db_table meta) (field_name meta)
                       (range_bottom meta) (range_top meta) w0 = (Inl e, w1) \<longrightarrow>
                   reports_error ''Error validating range constraints: '' e r)"
      by blast
  qed
qed

lemma enumeration_error_isolation:
  "list_all2
       (\<lambda>meta r. \<exists>w0. r = fst (enumeration_column be (enum_lookup_of enumeration_metadata) meta w0)
          \<and> (\<forall>e w1. enum_lookup_get (enum_lookup_of enumeration_metadata) (enumeration meta) \<noteq> []
                     \<and> check_enumeration_constraints be (db_name meta) (db_table meta)
                           (field_name meta)
                           (enum_lookup_get (enum_lookup_of enumeration_metadata) (enumeration meta))
                           w0 = (Inl e, w1) \<longrightarrow>
                   reports_error ''Error validating enumeration constraints: '' e r))
       (filter (\<lambda>meta. truthy (enumeration meta)) (filter_feeds sel metadata))
       (fst (validate_enumeration_constraints be metadata enumeration_metadata sel w))"
proof -
  have a: "list_all2 (\<lambda>meta r. \<exists>w0. r = fst (enumeration_column be (enum_lookup_of enumeration_metadata) meta w0))
             (filter (\<lambda>meta. truthy (enumeration meta)) (filter_feeds sel metadata))
             (fst (validate_enumeration_constraints be metadata enumeration_metadata sel w))"
    unfolding validate_enumeration_constraints_def Let_def by (rule for_each_column_all2)
  show ?thesis
  proof (rule list_all2_mono [OF a])
    fix meta r
    assume "\<exists>w0. r = fst (enumeration_column be (enum_lookup_of enumeration_metadata) meta w0)"
    then obtain w0 where r: "r = fst (enumeration_column be (enum_lookup_of enumeration_metadata) meta w0)" by blast
    from enumeration_unit_error [OF r] r
    show "\<exists>w0. r = fst (enumeration_column be (enum_lookup_of enumeration_metadata) meta w0)
          \<and> (\<forall>e w1. enum_lookup_get (enum_lookup_of enumeration_metadata) (enumeration meta) \<noteq> []
                     \<and> check_enumeration_constraints be (db_name meta) (db_table meta)
                           (field_name meta)
                           (enum_lookup_get (enum_lookup_of enumeration_metadata) (enumeration meta))
                           w0 = (Inl e, w1) \<longrightarrow>
                   reports_error ''Error validating enumeration constraints: '' e r)"
      by blast
  qed
qed

lemma data_type_error_isolation:
  "(\<exists>rs w'. validate_data_types be metadata sel w = (Inr rs, w')
       \<and> list_all2
            (\<lambda>g r. \<exists>dbn tbl m0 w0. group_header g = Inr (dbn, tbl, m0)
               \<and> r = fst (data_type_table be dbn tbl m0 g w0)
               \<and> (\<forall>e w1. get_table_schema be dbn tbl w0 = (Inl e, w1) \<longrightarrow> reports_error ''Error validating data types: '' e r)
              \<and> (\<forall>s1 w1 e w2.
                    get_table_schema be dbn tbl w0 = (Inr s1, w1)
                    \<and> connector_validate_data_types be dbn tbl (expected_schema_of (snd g)) w1
                         = (Inl e, w2) \<longrightarrow>
                    reports_error ''Error validating data types: '' e r))
            (table_groups (filter_feeds sel metadata)) rs)"
proof -
  obtain rs w' where v: "validate_data_types be metadata sel w = (Inr rs, w')"
    and a: "list_all2 (\<lambda>g r. \<exists>dbn tbl m0 w0. group_header g = Inr (dbn, tbl, m0)
                \<and> r = fst (data_type_table be dbn tbl m0 g w0))
              (table_groups (filter_feeds sel metadata)) rs"
    unfolding validate_data_types_def
    using group_validator_results
            [where prefix = "''Error in data type validation: ''" and body = "data_type_table be"
               and metadata = "filter_feeds sel metadata" and w = w]
    by blast
  have "list_all2
            (\<lambda>g r. \<exists>dbn tbl m0 w0. group_header g = Inr (dbn, tbl, m0)
               \<and> r = fst (data_type_table be dbn tbl m0 g w0)
               \<and> (\<forall>e w1. get_table_schema be dbn tbl w0 = (Inl e, w1) \<longrightarrow> reports_error ''Error validating data types: '' e r)
              \<and> (\<forall>s1 w1 e w2.
                    get_table_schema be dbn tbl w0 = (Inr s1, w1)
                    \<and> connector_validate_data_types be dbn tbl (expected_schema_of (snd g)) w1
                         = (Inl e, w2) \<longrightarrow>
                    reports_error ''Error validating data types: '' e r))
            (table_groups (filter_feeds sel metadata)) rs"
  proof (rule list_all2_mono [OF a])
    fix g r
    assume "\<exists>dbn tbl m0 w0. group_header g = Inr (dbn, tbl, m0)
              \<and> r = fst (data_type_table be dbn tbl m0 g w0)"
    then obtain dbn tbl m0 w0 where h: "group_header g = Inr (dbn, tbl, m0)"
      and r: "r = fst (data_type_table be dbn tbl m0 g w0)"
      by blast
    from data_type_unit_error [OF r] h r
    show "\<exists>dbn tbl m0 w0. group_header g = Inr (dbn, tbl, m0)
               \<and> r = fst (data_type_table be dbn tbl m0 g w0)
               \<and> (\<forall>e w1. get_table_schema be dbn tbl w0 = (Inl e, w1) \<longrightarrow> reports_error ''Error validating data types: '' e r)
              \<and> (\<forall>s1 w1 e w2.
                    get_table_schema be dbn tbl w0 = (Inr s1, w1)
                    \<and> connector_validate_data_types be dbn tbl (expected_schema_of (snd g)) w1
                         = (Inl e, w2) \<longrightarrow>
                    reports_error ''Error validating data types: '' e r)"
      by blast
  qed
  with v show ?thesis by blast
qed

lemma insert_append_error_isolation:
  "(\<exists>rs w'. validate_insert_append_logic be metadata sel w = (Inr rs, w')
       \<and> list_all2
            (\<lambda>g r. \<exists>dbn tbl m0 w0. group_header g = Inr (dbn, tbl, m0)
               \<and> r = fst (insert_append_table be dbn tbl m0 g w0)
               \<and> (\<forall>e w1. get_row_count be dbn tbl None w0 = (Inl e, w1) \<longrightarrow> reports_error ''Error validating insert/append logic: '' e r))
            (table_groups (filter_feeds sel metadata)) rs)"
proof -
  obtain rs w' where v: "validate_insert_append_logic be metadata sel w = (Inr rs, w')"
    and a: "list_all2 (\<lambda>g r. \<exists>dbn tbl m0 w0. group_header g = Inr (dbn, tbl, m0)
                \<and> r = fst (insert_append_table be dbn tbl m0 g w0))
              (table_groups (filter_feeds sel metadata)) rs"
    unfolding validate_insert_append_logic_def
    using group_validator_results
            [where prefix = "''Error in insert/append logic validation: ''" and body = "insert_append_table be"
               and metadata = "filter_feeds sel metadata" and w = w]
    by blast
  have "list_all2
            (\<lambda>g r. \<exists>dbn tbl m0 w0. group_header g = Inr (dbn, tbl, m0)
               \<and> r = fst (insert_append_table be dbn tbl m0 g w0)
               \<and> (\<forall>e w1. get_row_count be dbn tbl None w0 = (Inl e, w1) \<longrightarrow> reports_error ''Error validating insert/append logic: '' e r))
            (table_groups (filter_feeds sel metadata)) rs"
  proof (rule list_all2_mono [OF a])
    fix g r
    assume "\<exists>dbn tbl m0 w0. group_header g = Inr (dbn, tbl, m0)
              \<and> r = fst (insert_append_table be dbn tbl m0 g w0)"
    then obtain dbn tbl m0 w0 where h: "group_header g = Inr (dbn, tbl, m0)"
      and r: "r = fst (insert_append_table be dbn tbl m0 g w0)"
      by blast
    from insert_append_unit_error [OF r] h r
    show "\<exists>dbn tbl m0 w0. group_header g = Inr (dbn, tbl, m0)
               \<and> r = fst (insert_append_table be dbn tbl m0 g w0)
               \<and> (\<forall>e w1. get_row_count be dbn tbl None w0 = (Inl e, w1) \<longrightarrow> reports_error ''Error validating insert/append logic: '' e r)"
      by blast
  qed
  with v show ?thesis by blast
qed

lemma count_error_isolation:
  "(\<exists>rs w'. validate_count_checks be metadata expected_counts sel w = (Inr rs, w')
       \<and> list_all2
            (\<lambda>g r. \<exists>dbn tbl m0 w0. group_header g = Inr (dbn, tbl, m0)
               \<and> r = fst (count_table be expected_counts dbn tbl m0 g w0)
               \<and> (\<forall>e w1. get_row_count be dbn tbl None w0 = (Inl e, w1) \<longrightarrow> reports_error ''Error validating count checks: '' e r))
            (table_groups (filter_feeds sel metadata)) rs)"
proof -
  obtain rs w' where v: "validate_count_checks be metadata expected_counts sel w = (Inr rs, w')"
    and a: "list_all2 (\<lambda>g r. \<exists>dbn tbl m0 w0. group_header g = Inr (dbn, tbl, m0)
                \<and> r = fst (count_table be expected_counts dbn tbl m0 g w0))
              (table_groups (filter_feeds sel metadata)) rs"
    unfolding validate_count_checks_def
    using group_validator_results
            [where prefix = "''Error in count checks validation: ''" and body = "count_table be expected_counts"
               and metadata = "filter_feeds sel metadata" and w = w]
    by blast
  have "list_all2
            (\<lambda>g r. \<exists>dbn tbl m0 w0. group_header g = Inr (dbn, tbl, m0)
               \<and> r = fst (count_table be expected_counts dbn tbl m0 g w0)
               \<and> (\<forall>e w1. get_row_count be dbn tbl None w0 = (Inl e, w1) \<longrightarrow> reports_error ''Error validating count checks: '' e r))
            (table_groups (filter_feeds sel metadata)) rs"
  proof (rule list_all2_mono [OF a])
    fix g r
    assume "\<exists>dbn tbl m0 w0. group_header g = Inr (dbn, tbl, m0)
              \<and> r = fst (count_table be expected_counts dbn tbl m0 g w0)"
    then obtain dbn tbl m0 w0 where h: "group_header g = Inr (dbn, tbl, m0)"
      and r: "r = fst (count_table be expected_counts dbn tbl m0 g w0)"
      by blast
    from count_unit_error [OF r] h r
    show "\<exists>dbn tbl m0 w0. group_header g = Inr (dbn, tbl, m0)
               \<and> r = fst (count_table be expected_counts dbn tbl m0 g w0)
               \<and> (\<forall>e w1. get_row_count be dbn tbl None w0 = (Inl e, w1) \<longrightarrow> reports_error ''Error validating count checks: '' e r)"
      by blast
  qed
  with v show ?thesis by blast
qed

lemma completeness_error_isolation:
  "(\<exists>rs w'. validate_completeness_checks str_float be metadata sel w = (Inr rs, w')
       \<and> list_all2
            (\<lambda>g r. \<exists>dbn tbl m0 w0. group_header g = Inr (dbn, tbl, m0)
               \<and> r = fst (completeness_table str_float be dbn tbl m0 g w0)
               \<and> (\<forall>e w1. get_row_count be dbn tbl None w0 = (Inl e, w1) \<longrightarrow> reports_error ''Error validating completeness checks: '' e r)
              \<and> (\<forall>rows w1 entries e w2.
                    get_row_count be dbn tbl None w0 = (Inr rows, w1) \<and> rows \<noteq> 0
                    \<and> completeness_columns be dbn tbl rows (snd g) [] [] w1
                         = ((entries, Inl e), w2) \<longrightarrow>
                    reports_error ''Error validating completeness checks: '' e r))
            (table_groups (filter_feeds sel metadata)) rs)"
proof -
  obtain rs w' where v: "validate_completeness_checks str_float be metadata sel w = (Inr rs, w')"
    and a: "list_all2 (\<lambda>g r. \<exists>dbn tbl m0 w0. group_header g = Inr (dbn, tbl, m0)
                \<and> r = fst (completeness_table str_float be dbn tbl m0 g w0))
              (table_groups (filter_feeds sel metadata)) rs"
    unfolding validate_completeness_checks_def
    using group_validator_results
            [where prefix = "''Error in completeness checks validation: ''" and body = "completeness_table str_float be"
               and metadata = "filter_feeds sel metadata" and w = w]
    by blast
  have "list_all2
            (\<lambda>g r. \<exists>dbn tbl m0 w0. group_header g = Inr (dbn, tbl, m0)
               \<and> r = fst (completeness_table str_float be dbn tbl m0 g w0)
               \<and> (\<forall>e w1. get_row_count be dbn tbl None w0 = (Inl e, w1) \<longrightarrow> reports_error ''Error validating completeness checks: '' e r)
              \<and> (\<forall>rows w1 entries e w2.
                    get_row_count be dbn tbl None w0 = (Inr rows, w1) \<and> rows \<noteq> 0
                    \<and> completeness_columns be dbn tbl rows (snd g) [] [] w1
                         = ((entries, Inl e), w2) \<longrightarrow>
                    reports_error ''Error validating completeness checks: '' e r))
            (table_groups (filter_feeds sel metadata)) rs"
  proof (rule list_all2_mono [OF a])
    fix g r
    assume "\<exists>dbn tbl m0 w0. group_header g = Inr (dbn, tbl, m0)
              \<and> r = fst (completeness_table str_float be dbn tbl m0 g w0)"
    then obtain dbn tbl m0 w0 where h: "group_header g = Inr (dbn, tbl, m0)"
      and r: "r = fst (completeness_table str_float be dbn tbl m0 g w0)"
      by blast
    from completeness_unit_error [OF r] h r
    show "\<exists>dbn tbl m0 w0. group_header g = Inr (dbn, tbl, m0)
               \<and> r = fst (completeness_table str_float be dbn tbl m0 g w0)
               \<and> (\<forall>e w1. get_row_count be dbn tbl None w0 = (Inl e, w1) \<longrightarrow> reports_error ''Error validating completeness checks: '' e r)
              \<and> (\<forall>rows w1 entries e w2.
                    get_row_count be dbn tbl None w0 = (Inr rows, w1) \<and> rows \<noteq> 0
                    \<and> completeness_columns be dbn tbl rows (snd g) [] [] w1
                         = ((entries, Inl e), w2) \<longrightarrow>
                    reports_error ''Error validating completeness checks: '' e r)"
      by blast
  qed
  with v show ?thesis by blast
qed

text \<open>
  C7, as the code has it. Every validator returns normally, with exactly one result for
  each unit it evaluates, in order: a (store, table) group for the data type, insert/append,
  count and completeness validators, a selected metadata record for the nullable, unique,
  range and enumeration validators. When the connector raises while a unit is evaluated,
  the result of that unit has status ERROR and carries the message of the exception; the
  units after it have their results all the same.
\<close>

theorem validators_isolate_errors:
  "(\<exists>rs w'. validate_data_types be metadata sel w = (Inr rs, w')
       \<and> list_all2
            (\<lambda>g r. \<exists>dbn tbl m0 w0. group_header g = Inr (dbn, tbl, m0)
               \<and> r = fst (data_type_table be dbn tbl m0 g w0)
               \<and> (\<forall>e w1. get_table_schema be dbn tbl w0 = (Inl e, w1) \<longrightarrow> reports_error ''Error validating data types: '' e r)
              \<and> (\<forall>s1 w1 e w2.
                    get_table_schema be dbn tbl w0 = (Inr s1, w1)
                    \<and> connector_validate_data_types be dbn tbl (expected_schema_of (snd g)) w1
                         = (Inl e, w2) \<longrightarrow>
                    reports_error ''Error validating data types: '' e r))
            (table_groups (filter_feeds sel metadata)) rs)
   \<and> list_all2
       (\<lambda>meta r. \<exists>w0. r = fst (nullable_column be meta w0)
          \<and> (\<forall>e w1. check_nullable_constraints be (db_name meta) (db_table meta) (field_name meta) w0
                     = (Inl e, w1) \<longrightarrow>
                   reports_error ''Error validating nullable constraints: '' e r))
       (filter_feeds sel metadata)
       (fst (validate_nullable_constraints be metadata sel w))
   \<and> list_all2
       (\<lambda>meta r. \<exists>w0. r = fst (unique_column be meta w0)
          \<and> (\<forall>e w1. check_unique_constraints be (db_name meta) (db_table meta) (field_name meta) w0
                     = (Inl e, w1) \<longrightarrow>
                   reports_error ''Error validating unique constraints: '' e r))
       (filter (\<lambda>meta. upper (unique meta) = ''Y'') (filter_feeds sel metadata))
       (fst (validate_unique_constraints be metadata sel w))
   \<and> list_all2
       (\<lambda>meta r. \<exists>w0. r = fst (range_column be meta w0)
          \<and> (\<forall>e w1. check_range_constraints be (db_name meta) (db_table meta) (field_name meta)
                       (range_bottom meta) (range_top meta) w0 = (Inl e, w1) \<longrightarrow>
                   reports_error ''Error validating range constraints: '' e r))
       (filter (\<lambda>meta. truthy (range_bottom meta) \<or> truthy (range_top meta)) (filter_feeds sel metadata))
       (fst (validate_range_constraints be metadata sel w))
   \<and> list_all2
       (\<lambda>meta r. \<exists>w0. r = fst (enumeration_column be (enum_lookup_of enumeration_metadata) meta w0)
          \<and> (\<forall>e w1. enum_lookup_get (enum_lookup_of enumeration_metadata) (enumeration meta) \<noteq> []
                     \<and> check_enumeration_constraints be (db_name meta) (db_table meta)
                           (field_name meta)
                           (enum_lookup_get (enum_lookup_of enumeration_metadata) (enumeration meta))
                           w0 = (Inl e, w1) \<longrightarrow>
                   reports_error ''Error validating enumeration constraints: '' e r))
       (filter (\<lambda>meta. truthy (enumeration meta)) (filter_feeds sel metadata))
       (fst (validate_enumeration_constraints be metadata enumeration_metadata sel w))
   \<and> (\<exists>rs w'. validate_insert_append_logic be metadata sel w = (Inr rs, w')
       \<and> list_all2
            (\<lambda>g r. \<exists>dbn tbl m0 w0. group_header g = Inr (dbn, tbl, m0)
               \<and> r = fst (insert_append_table be dbn tbl m0 g w0)
               \<and> (\<forall>e w1. get_row_count be dbn tbl None w0 = (Inl e, w1) \<longrightarrow> reports_error ''Error validating insert/append logic: '' e r))
            (table_groups (filter_feeds sel metadata)) rs)
   \<and> (\<exists>rs w'. validate_count_checks be metadata expected_counts sel w = (Inr rs, w')
       \<and> list_all2
            (\<lambda>g r. \<exists>dbn tbl m0 w0. group_header g = Inr (dbn, tbl, m0)
               \<and> r = fst (count_table be expected_counts dbn tbl m0 g w0)
               \<and> (\<forall>e w1. get_row_count be dbn tbl None w0 = (Inl e, w1) \<longrightarrow> reports_error ''Error validating count checks: '' e r))
            (table_groups (filter_feeds sel metadata)) rs)
   \<and> (\<exists>rs w'. validate_completeness_checks str_float be metadata sel w = (Inr rs, w')
       \<and> list_all2
            (\<lambda>g r. \<exists>dbn tbl m0 w0. group_header g = Inr (dbn, tbl, m0)
               \<and> r = fst (completeness_table str_float be dbn tbl m0 g w0)
               \<and> (\<forall>e w1. get_row_count be dbn tbl None w0 = (Inl e, w1) \<longrightarrow> reports_error ''Error validating completeness checks: '' e r)
              \<and> (\<forall>rows w1 entries e w2.
                    get_row_count be dbn tbl None w0 = (Inr rows, w1) \<and> rows \<noteq> 0
                    \<and> completeness_columns be dbn tbl rows (snd g) [] [] w1
                         = ((entries, Inl e), w2) \<longrightarrow>
                    reports_error ''Error validating completeness checks: '' e r))
            (table_groups (filter_feeds sel metadata)) rs)"
  by (intro conjI data_type_error_isolation nullable_error_isolation unique_error_isolation
        range_error_isolation enumeration_error_isolation insert_append_error_isolation
        count_error_isolation completeness_error_isolation)

theorem validators_isolate_errors_witness:
  "get_row_count partly_reachable_backend ''server1_db'' ''orders'' None 0
     = (Inl ''connection refused'', 1)
   \<and> map fst (table_groups [order_id, customer_id])
       = [''server1_db.orders'', ''server1_db.customers'']
   \<and> map_sum id (map validation_status)
        (fst (validate_count_checks partly_reachable_backend [order_id, customer_id] None None 0))
       = Inr [ERROR, PASS]
   \<and> map_sum id (map error_message)
        (fst (validate_count_checks partly_reachable_backend [order_id, customer_id] None None 0))
       = Inr [Some ''Error validating count checks: connection refused'', None]
   \<and> (\<exists>rs w'. validate_data_types partly_reachable_backend [order_id, customer_id] None 0 = (Inr rs, w')
       \<and> list_all2
            (\<lambda>g r. \<exists>dbn tbl m0 w0. group_header g = Inr (dbn, tbl, m0)
               \<and> r = fst (data_type_table partly_reachable_backend dbn tbl m0 g w0)
               \<and> (\<forall>e w1. get_table_schema partly_reachable_backend dbn tbl w0 = (Inl e, w1) \<longrightarrow> reports_error ''Error validating data types: '' e r)
              \<and> (\<forall>s1 w1 e w2.
                    get_table_schema partly_reachable_backend dbn tbl w0 = (Inr s1, w1)
                    \<and> connector_validate_data_types partly_reachable_backend dbn tbl (expected_schema_of (snd g)) w1
                         = (Inl e, w2) \<longrightarrow>
                    reports_error ''Error validating data types: '' e r))
            (table_groups (filter_feeds None [order_id, customer_id])) rs)
   \<and> list_all2
       (\<lambda>meta r. \<exists>w0. r = fst (nullable_column partly_reachable_backend meta w0)
          \<and> (\<forall>e w1. check_nullable_constraints partly_reachable_backend (db_name meta) (db_table meta) (field_name meta) w0
                     = (Inl e, w1) \<longrightarrow>
                   reports_error ''Error validating nullable constraints: '' e r))
       (filter_feeds None [order_id, customer_id])
       (fst (validate_nullable_constraints partly_reachable_backend [order_id, customer_id] None 0))
   \<and> list_all2
       (\<lambda>meta r. \<exists>w0. r = fst (unique_column partly_reachable_backend meta w0)
          \<and> (\<forall>e w1. check_unique_constraints partly_reachable_backend (db_name meta) (db_table meta) (field_name meta) w0
                     = (Inl e, w1) \<longrightarrow>
                   reports_error ''Error validating unique constraints: '' e r))
       (filter (\<lambda>meta. upper (unique meta) = ''Y'') (filter_feeds None [order_id, customer_id]))
       (fst (validate_unique_constraints partly_reachable_backend [order_id, customer_id] None 0))
   \<and> list_all2
       (\<lambda>meta r. \<exists>w0. r = fst (range_column partly_reachable_backend meta w0)
          \<and> (\<forall>e w1. check_range_constraints partly_reachable_backend (db_name meta) (db_table meta) (field_name meta)
                       (range_bottom meta) (range_top meta) w0 = (Inl e, w1) \<longrightarrow>
                   reports_error ''Error validating range constraints: '' e r))
       (filter (\<lambda>meta. truthy (range_bottom meta) \<or> truthy (range_top meta)) (filter_feeds None [order_id, customer_id]))
       (fst (validate_range_constraints partly_reachable_backend [order_id, customer_id] None 0))
   \<and> list_all2
       (\<lambda>meta r. \<exists>w0. r = fst (enumeration_column partly_reachable_backend (enum_lookup_of status_catalog) meta w0)
          \<and> (\<forall>e w1. enum_lookup_get (enum_lookup_of status_catalog) (enumeration meta) \<noteq> []
                     \<and> check_enumeration_constraints partly_reachable_backend (db_name meta) (db_table meta)
                           (field_name meta)
                           (enum_lookup_get (enum_lookup_of status_catalog) (enumeration meta))
                           w0 = (Inl e, w1) \<longrightarrow>
                   reports_error ''Error validating enumeration constraints: '' e r))
       (filter (\<lambda>meta. truthy (enumeration meta)) (filter_feeds None [order_id, customer_id]))
       (fst (validate_enumeration_constraints partly_reachable_backend [order_id, customer_id] status_catalog None 0))
   \<and> (\<exists>rs w'. validate_insert_append_logic partly_reachable_backend [order_id, customer_id] None 0 = (Inr rs, w')
       \<and> list_all2
            (\<lambda>g r. \<exists>dbn tbl m0 w0. group_header g = Inr (dbn, tbl, m0)
               \<and> r = fst (insert_append_table partly_reachable_backend dbn tbl m0 g w0)
               \<and> (\<forall>e w1. get_row_count partly_reachable_backend dbn tbl None w0 = (Inl e, w1) \<longrightarrow> reports_error ''Error validating insert/append logic: '' e r))
            (table_groups (filter_feeds None [order_id, customer_id])) rs)
   \<and> (\<exists>rs w'. validate_count_checks partly_reachable_backend [order_id, customer_id] None None 0 = (Inr rs, w')
       \<and> list_all2
            (\<lambda>g r. \<exists>dbn tbl m0 w0. group_header g = Inr (dbn, tbl, m0)
               \<and> r = fst (count_table partly_reachable_backend None dbn tbl m0 g w0)
               \<and> (\<forall>e w1. get_row_count partly_reachable_backend dbn tbl None w0 = (Inl e, w1) \<longrightarrow> reports_error ''Error validating count checks: '' e r))
            (table_groups (filter_feeds None [order_id, customer_id])) rs)
   \<and> (\<exists>rs w'. validate_completeness_checks (\<lambda>x. []) partly_reachable_backend [order_id, customer_id] None 0 = (Inr rs, w')
       \<and> list_all2
            (\<lambda>g r. \<exists>dbn tbl m0 w0. group_header g = Inr (dbn, tbl, m0)
               \<and> r = fst (completeness_table (\<lambda>x. []) partly_reachable_backend dbn tbl m0 g w0)
               \<and> (\<forall>e w1. get_row_count partly_reachable_backend dbn tbl None w0 = (Inl e, w1) \<longrightarrow> reports_error ''Error validating completeness checks: '' e r)
              \<and> (\<forall>rows w1 entries e w2.
                    get_row_count partly_reachable_backend dbn tbl None w0 = (Inr rows, w1) \<and> rows \<noteq> 0
                    \<and> completeness_columns partly_reachable_backend dbn tbl rows (snd g) [] [] w1
                         = ((entries, Inl e), w2) \<longrightarrow>
                    reports_error ''Error validating completeness checks: '' e r))
            (table_groups (filter_feeds None [order_id, customer_id])) rs)"
proof -
  have "get_row_count partly_reachable_backend ''server1_db'' ''orders'' None 0
     = (Inl ''connection refused'', 1)
   \<and> map fst (table_groups [order_id, customer_id])
       = [''server1_db.orders'', ''server1_db.customers'']
   \<and> map_sum id (map validation_status)
        (fst (validate_count_checks partly_reachable_backend [order_id, customer_id] None None 0))
       = Inr [ERROR, PASS]
   \<and> map_sum id (map error_message)
        (fst (validate_count_checks partly_reachable_backend [order_id, customer_id] None None 0))
       = Inr [Some ''Error validating count checks: connection refused'', None]"
    by code_simp
  then show ?thesis
    using validators_isolate_errors
            [where be = partly_reachable_backend and sel = None
               and metadata = "[order_id, customer_id]" and w = 0
               and enumeration_metadata = status_catalog and expected_counts = None
               and str_float = "\<lambda>x. []"]
    by blast
qed

text \<open>
  Two records of one (store, table) group and a store that cannot be reached: the nullable
  validator emits two ERROR records for the one group, one for each record.
\<close>

theorem validators_isolate_errors_counterexample:
  "map fst (table_groups [customer_id, customer_status]) = [''server1_db.customers'']
   \<and> map validation_status
        (fst (validate_nullable_constraints unreachable_backend [customer_id, customer_status]
                None 0)) = [ERROR, ERROR]
   \<and> map error_message
        (fst (validate_nullable_constraints unreachable_backend [customer_id, customer_status]
                None 0))
       = [Some ''Error validating nullable constraints: connection refused'',
          Some ''Error validating nullable constraints: connection refused'']"
  by code_simp

end
